theory Spec2Isabelle
  imports Main "HOL-Library.Sublist" "HOL-Library.Char_ord" "HOL-Library.List_Lexorder"
    "HOL-Library.Monad_Syntax"
begin

section \<open>JavaScript strings\<close>

text \<open>
  The component (\<^verbatim>\<open>src/Chatbot.tsx\<close>) works on JavaScript strings with the built-in
  methods \<^verbatim>\<open>toLowerCase\<close>, \<^verbatim>\<open>trim\<close>, \<^verbatim>\<open>includes\<close>, \<^verbatim>\<open>startsWith\<close>, \<^verbatim>\<open>split\<close> and
  \<^verbatim>\<open>replace\<close>. A string is modelled as a list of code units. A \<open>char\<close> holds eight
  bits, so the model covers the code units below 256 (Latin-1), and on those the
  definitions below follow ECMAScript.
\<close>

definition toLowerChar :: "char \<Rightarrow> char" where
  "toLowerChar c =
     (let n = (of_char c :: nat)
      in if (65 \<le> n \<and> n \<le> 90) \<or> (192 \<le> n \<and> n \<le> 222 \<and> n \<noteq> 215)
         then char_of (n + 32) else c)"

definition toLowerCase :: "string \<Rightarrow> string" where
  "toLowerCase s = map toLowerChar s"

text \<open>White space and line terminators that \<^verbatim>\<open>trim\<close> strips: TAB, LF, VT, FF, CR,
  SP and NBSP.\<close>

definition isWhiteSpace :: "char \<Rightarrow> bool" where
  "isWhiteSpace c = ((of_char c :: nat) \<in> {9, 10, 11, 12, 13, 32, 160})"

definition trim :: "string \<Rightarrow> string" where
  "trim s = rev (dropWhile isWhiteSpace (rev (dropWhile isWhiteSpace s)))"

definition startsWith :: "string \<Rightarrow> string \<Rightarrow> bool" where
  "startsWith s p = prefix p s"

text \<open>\<^verbatim>\<open>s.indexOf(p)\<close>: the least position at which \<open>p\<close> occurs, \<open>None\<close> for -1.\<close>

fun indexOf :: "string \<Rightarrow> string \<Rightarrow> nat option" where
  "indexOf [] p = (if p = [] then Some 0 else None)"
| "indexOf (c # cs) p =
     (if prefix p (c # cs) then Some 0 else map_option Suc (indexOf cs p))"

definition includes_str :: "string \<Rightarrow> string \<Rightarrow> bool" where
  "includes_str s p = (indexOf s p \<noteq> None)"

lemma indexOf_bound: "indexOf s p = Some i \<Longrightarrow> i + length p \<le> length s"
proof (induction s arbitrary: i)
  case Nil
  then show ?case by (simp split: if_splits)
next
  case (Cons c cs)
  show ?case
  proof (cases "prefix p (c # cs)")
    case True
    then have "length p \<le> length (c # cs)" by (rule prefix_length_le)
    with True Cons.prems show ?thesis by simp
  next
    case False
    with Cons.prems obtain j where "indexOf cs p = Some j" and "i = Suc j"
      by auto
    with Cons.IH show ?thesis by fastforce
  qed
qed

text \<open>\<^verbatim>\<open>s.split(sep)\<close> with a string separator: the pieces between successive
  occurrences of \<open>sep\<close>, found from left to right; an empty separator splits into
  code units.\<close>

function split :: "string \<Rightarrow> string \<Rightarrow> string list" where
  "split s sep =
     (if sep = [] then map (\<lambda>c. [c]) s
      else case indexOf s sep of
             None \<Rightarrow> [s]
           | Some i \<Rightarrow> take i s # split (drop (i + length sep) s) sep)"
  by pat_completeness auto
termination
proof (relation "measure (\<lambda>(s, sep). length s)")
  show "wf (measure (\<lambda>(s, sep). length s))" by simp
next
  fix s sep :: string and i :: nat
  assume "sep \<noteq> []" and "indexOf s sep = Some i"
  then have "i + length sep \<le> length s" and "0 < length sep"
    by (simp_all add: indexOf_bound)
  then have "length (drop (i + length sep) s) < length s"
    by (simp del: length_greater_0_conv)
  then show "((drop (i + length sep) s, sep), (s, sep)) \<in> measure (\<lambda>(s, sep). length s)"
    by simp
qed

declare split.simps [simp del]

text \<open>An array read \<^verbatim>\<open>xs[i]\<close>: \<open>None\<close> stands for \<^verbatim>\<open>undefined\<close> out of range.\<close>

definition at :: "'a list \<Rightarrow> nat \<Rightarrow> 'a option" where
  "at xs i = (if i < length xs then Some (xs ! i) else None)"

text \<open>\<^verbatim>\<open>s.replace(p, r)\<close> with a string pattern replaces the first occurrence only.\<close>

definition replaceFirst :: "string \<Rightarrow> string \<Rightarrow> string \<Rightarrow> string" where
  "replaceFirst s p r =
     (case indexOf s p of
        None \<Rightarrow> s
      | Some i \<Rightarrow> take i s @ r @ drop (i + length p) s)"

text \<open>\<^verbatim>\<open>s.replace(/[?.,]/g, '')\<close>: every code unit of the class is removed.\<close>

definition stripPunctuation :: "string \<Rightarrow> string" where
  "stripPunctuation s = filter (\<lambda>c. c \<notin> set ''?.,'') s"

text \<open>\<^verbatim>\<open>s.replace(/p1|p2|.../gi, '')\<close> for lower-case ASCII alternatives: at each
  position the first alternative that matches without regard to case is removed and
  the scan goes on behind it; otherwise the code unit is kept.\<close>

definition matchesCI :: "string \<Rightarrow> string \<Rightarrow> bool" where
  "matchesCI p s = (length p \<le> length s \<and> toLowerCase (take (length p) s) = p)"

function removeAllCI :: "string list \<Rightarrow> string \<Rightarrow> string" where
  "removeAllCI alts [] = []"
| "removeAllCI alts (c # cs) =
     (case find (\<lambda>p. matchesCI p (c # cs)) alts of
        None \<Rightarrow> c # removeAllCI alts cs
      | Some p \<Rightarrow>
          if p = [] then c # removeAllCI alts cs
          else removeAllCI alts (drop (length p) (c # cs)))"
  by pat_completeness auto
termination
  by (relation "measure (\<lambda>(alts, s). length s)") auto

section \<open>The natural-language rewriter\<close>

text \<open>\<^verbatim>\<open>parseNaturalLanguage\<close>: \<open>None\<close> is the source's \<^verbatim>\<open>null\<close>. The optional chain
  \<^verbatim>\<open>split(...)[1]?.trim().replace(...)\<close> gives \<^verbatim>\<open>undefined\<close> when the array has no second
  element, and the template literal then prints the word \<^verbatim>\<open>undefined\<close>.\<close>

definition parseNaturalLanguage :: "string \<Rightarrow> string option" where
  "parseNaturalLanguage text' =
     (let lower = toLowerCase text' in
      if includes_str lower ''weather in'' then
        (let city = map_option (\<lambda>piece. stripPunctuation (trim piece))
                      (at (split lower ''weather in'') 1)
         in Some (''/weather '' @ (case city of None \<Rightarrow> ''undefined'' | Some c \<Rightarrow> c)))
      else if startsWith lower ''what is'' \<or> startsWith lower ''calculate'' then
        (let expression = trim (removeAllCI [''what is'', ''calculate''] text')
         in Some (''/calc '' @ expression))
      else if startsWith lower ''define'' \<or> startsWith lower ''what does'' then
        (let word = stripPunctuation
                      (trim (removeAllCI [''define'', ''what does'', ''mean''] text'))
         in Some (''/define '' @ word))
      else None)"

section \<open>JavaScript values\<close>

text \<open>
  The payloads the component handles (\<^verbatim>\<open>res.data\<close> of a lookup, the result of the
  evaluated expression, \<^verbatim>\<open>pluginData\<close>) have the type \<^verbatim>\<open>any\<close>. The model has the JSON
  values and the values JSON cannot write: \<^verbatim>\<open>undefined\<close>, \<^verbatim>\<open>NaN\<close>, the infinities
  and the negative zero. A finite number other than the negative zero is \<open>Num n\<close>
  when it is an integer of magnitude at most \<open>2 ^ 53\<close>, and \<open>Decimal t\<close> otherwise,
  where \<open>t\<close> is the text \<^verbatim>\<open>Number::toString\<close> prints for it (\<^verbatim>\<open>21.5\<close>, \<^verbatim>\<open>1e+21\<close>): that text
  determines the number, and it is all the component does with a number. An object
  is the list of its own properties in enumeration order. Functions, symbols,
  big integers and objects with a prototype of their own are outside the model.
\<close>

datatype jsval =
    Undefined
  | Null
  | Boolean bool
  | Num int
  | NaN
  | PosInfinity
  | NegInfinity
  | Str string
  | Arr "jsval list"
  | Obj "(string \<times> jsval) list"
  | Decimal string
  | NegZero

definition digitChar :: "int \<Rightarrow> char" where
  "digitChar d = char_of (48 + d)"

function showDigits :: "int \<Rightarrow> string" where
  "showDigits n =
     (if n < 10 then [digitChar n] else showDigits (n div 10) @ [digitChar (n mod 10)])"
  by pat_completeness auto
termination
  by (relation "measure (\<lambda>n. nat n)") auto

declare showDigits.simps [simp del]

text \<open>\<^verbatim>\<open>Number::toString\<close> on an integer of magnitude below \<open>10 ^ 21\<close>, as every
  \<open>Num n\<close> is.\<close>

definition showInt :: "int \<Rightarrow> string" where
  "showInt i = (if i < 0 then CHR ''-'' # showDigits (- i) else showDigits i)"

fun joinWith :: "string \<Rightarrow> string list \<Rightarrow> string" where
  "joinWith sep [] = []"
| "joinWith sep [x] = x"
| "joinWith sep (x # y # ys) = x @ sep @ joinWith sep (y # ys)"

text \<open>
  \<^verbatim>\<open>ToString\<close>, which a template literal applies to each \<^verbatim>\<open>${...}\<close>: \<open>None\<close> when it
  throws a \<^verbatim>\<open>TypeError\<close>. A plain object prints through \<^verbatim>\<open>Object.prototype.toString\<close>
  unless an own property \<^verbatim>\<open>toString\<close> hides it: that property is not callable, the
  inherited \<^verbatim>\<open>valueOf\<close> returns the object, and the conversion throws. An array prints
  through \<^verbatim>\<open>join\<close>, where \<^verbatim>\<open>undefined\<close> and \<^verbatim>\<open>null\<close> elements print as the empty string.
\<close>

fun toString :: "jsval \<Rightarrow> string option"
  and toStringElements :: "jsval list \<Rightarrow> string list option" where
  "toString Undefined = Some ''undefined''"
| "toString Null = Some ''null''"
| "toString (Boolean b) = Some (if b then ''true'' else ''false'')"
| "toString (Num n) = Some (showInt n)"
| "toString NaN = Some ''NaN''"
| "toString PosInfinity = Some ''Infinity''"
| "toString NegInfinity = Some ''-Infinity''"
| "toString (Str s) = Some s"
| "toString (Arr vs) = map_option (joinWith '','') (toStringElements vs)"
| "toString (Obj kvs) =
     (if ''toString'' \<in> set (map fst kvs) then None else Some ''[object Object]'')"
| "toString (Decimal t) = Some t"
| "toString NegZero = Some ''0''"
| "toStringElements [] = Some []"
| "toStringElements (v # vs) =
     (case (if v = Undefined \<or> v = Null then Some [] else toString v) of
        None \<Rightarrow> None
      | Some t \<Rightarrow> map_option (\<lambda>ts. t # ts) (toStringElements vs))"

definition nullish :: "jsval \<Rightarrow> bool" where
  "nullish v = (v = Undefined \<or> v = Null)"

definition truthy :: "jsval \<Rightarrow> bool" where
  "truthy v = (v \<notin> {Undefined, Null, Boolean False, Num 0, NegZero, NaN, Str []})"

text \<open>
  Property reads. \<open>None\<close> is the \<^verbatim>\<open>TypeError\<close> of reading a property of \<^verbatim>\<open>undefined\<close>
  or \<^verbatim>\<open>null\<close>. \<open>getProp\<close> reads a property by a name that no built-in prototype
  defines and that is not an index (as \<^verbatim>\<open>weather\<close>, \<^verbatim>\<open>description\<close>, \<^verbatim>\<open>main\<close>, \<^verbatim>\<open>temp\<close>,
  \<^verbatim>\<open>meanings\<close>, \<^verbatim>\<open>definitions\<close> and \<^verbatim>\<open>definition\<close>, the names the component reads): only
  an object can have it. \<open>getIndex\<close> reads \<^verbatim>\<open>v[i]\<close>.
\<close>

definition getProp :: "jsval \<Rightarrow> string \<Rightarrow> jsval option" where
  "getProp v name =
     (case v of
        Undefined \<Rightarrow> None
      | Null \<Rightarrow> None
      | Obj kvs \<Rightarrow> Some (case map_of kvs name of None \<Rightarrow> Undefined | Some x \<Rightarrow> x)
      | _ \<Rightarrow> Some Undefined)"

definition getIndex :: "jsval \<Rightarrow> nat \<Rightarrow> jsval option" where
  "getIndex v i =
     (case v of
        Undefined \<Rightarrow> None
      | Null \<Rightarrow> None
      | Arr vs \<Rightarrow> Some (case at vs i of None \<Rightarrow> Undefined | Some x \<Rightarrow> x)
      | Str s \<Rightarrow> Some (case at s i of None \<Rightarrow> Undefined | Some c \<Rightarrow> Str [c])
      | Obj kvs \<Rightarrow> Some (case map_of kvs (showInt (int i)) of None \<Rightarrow> Undefined | Some x \<Rightarrow> x)
      | _ \<Rightarrow> Some Undefined)"

section \<open>Serialisation: \<^verbatim>\<open>JSON.stringify\<close>\<close>

definition hexDigit :: "nat \<Rightarrow> char" where
  "hexDigit d = (if d < 10 then char_of (48 + d) else char_of (87 + d))"

text \<open>\<^verbatim>\<open>QuoteJSONString\<close>: the quotation mark (0x22) and the backslash (0x5C) are
  escaped, the control characters have their short escapes or \<^verbatim>\<open>\u00XX\<close>.\<close>

definition escapeJSON :: "char \<Rightarrow> string" where
  "escapeJSON c =
     (if c = CHR 0x22 then [CHR 0x5C, CHR 0x22]
      else if c = CHR 0x5C then [CHR 0x5C, CHR 0x5C]
      else if c = CHR 0x08 then [CHR 0x5C, CHR ''b'']
      else if c = CHR 0x09 then [CHR 0x5C, CHR ''t'']
      else if c = CHR 0x0A then [CHR 0x5C, CHR ''n'']
      else if c = CHR 0x0C then [CHR 0x5C, CHR ''f'']
      else if c = CHR 0x0D then [CHR 0x5C, CHR ''r'']
      else if (of_char c :: nat) < 0x20
        then [CHR 0x5C, CHR ''u'', CHR ''0'', CHR ''0'',
              hexDigit ((of_char c :: nat) div 16), hexDigit ((of_char c :: nat) mod 16)]
      else [c])"

definition quoteJSON :: "string \<Rightarrow> string" where
  "quoteJSON s = CHR 0x22 # concat (map escapeJSON s) @ [CHR 0x22]"

text \<open>
  \<^verbatim>\<open>SerializeJSONProperty\<close> without indentation: \<open>None\<close> is the result \<^verbatim>\<open>undefined\<close>.
  A property whose value is \<^verbatim>\<open>undefined\<close> is left out of its object, an \<^verbatim>\<open>undefined\<close>
  array element is written \<^verbatim>\<open>null\<close>, and so are \<^verbatim>\<open>NaN\<close> and the infinities; a finite
  number is written as \<^verbatim>\<open>Number::toString\<close> prints it, the negative zero as \<^verbatim>\<open>0\<close>.
\<close>

fun stringify :: "jsval \<Rightarrow> string option"
  and stringifyElements :: "jsval list \<Rightarrow> string list"
  and stringifyMembers :: "(string \<times> jsval) list \<Rightarrow> string list" where
  "stringify Undefined = None"
| "stringify Null = Some ''null''"
| "stringify (Boolean b) = Some (if b then ''true'' else ''false'')"
| "stringify (Num n) = Some (showInt n)"
| "stringify NaN = Some ''null''"
| "stringify PosInfinity = Some ''null''"
| "stringify NegInfinity = Some ''null''"
| "stringify (Str s) = Some (quoteJSON s)"
| "stringify (Arr vs) = Some (''['' @ joinWith '','' (stringifyElements vs) @ '']'')"
| "stringify (Obj kvs) = Some (''{'' @ joinWith '','' (stringifyMembers kvs) @ ''}'')"
| "stringify (Decimal t) = Some t"
| "stringify NegZero = Some ''0''"
| "stringifyElements [] = []"
| "stringifyElements (v # vs) =
     (case stringify v of None \<Rightarrow> ''null'' | Some t \<Rightarrow> t) # stringifyElements vs"
| "stringifyMembers [] = []"
| "stringifyMembers ((k, v) # kvs) =
     (case stringify v of
        None \<Rightarrow> stringifyMembers kvs
      | Some t \<Rightarrow> (quoteJSON k @ '':'' @ t) # stringifyMembers kvs)"

section \<open>Messages and the component's state\<close>

datatype Sender = User | Assistant

datatype MessageType = Text | Plugin

text \<open>The interface \<^verbatim>\<open>Message\<close>. The fields \<^verbatim>\<open>id\<close> and \<^verbatim>\<open>type\<close> carry a prime. An
  optional \<^verbatim>\<open>pluginName\<close> that is \<^verbatim>\<open>undefined\<close> is \<open>None\<close>; \<^verbatim>\<open>pluginData\<close> is any value,
  \<open>Undefined\<close> when the argument is omitted.\<close>

record Message =
  id' :: string
  sender :: Sender
  content :: string
  type' :: MessageType
  pluginName :: "string option"
  pluginData :: jsval
  timestamp :: string

text \<open>A message as the object \<^verbatim>\<open>createMessage\<close> builds, its properties in the order
  of the object literal.\<close>

definition messageToJS :: "Message \<Rightarrow> jsval" where
  "messageToJS m =
     Obj [(''id'', Str (id' m)),
          (''sender'', Str (case sender m of User \<Rightarrow> ''user'' | Assistant \<Rightarrow> ''assistant'')),
          (''content'', Str (content m)),
          (''type'', Str (case type' m of Text \<Rightarrow> ''text'' | Plugin \<Rightarrow> ''plugin'')),
          (''pluginName'', (case pluginName m of None \<Rightarrow> Undefined | Some n \<Rightarrow> Str n)),
          (''pluginData'', pluginData m),
          (''timestamp'', Str (timestamp m))]"

text \<open>\<^verbatim>\<open>JSON.stringify(messages)\<close> as \<^verbatim>\<open>localStorage.setItem\<close> stores it (a value that
  is not a string is stored as its \<^verbatim>\<open>ToString\<close>).\<close>

definition serialize :: "Message list \<Rightarrow> string" where
  "serialize ms =
     (case stringify (Arr (map messageToJS ms)) of None \<Rightarrow> ''undefined'' | Some t \<Rightarrow> t)"

text \<open>
  What the component takes from outside: \<open>uuidv4 k\<close> and \<open>now k\<close> are the id drawn
  and the ISO-8601 reading of the clock (\<^verbatim>\<open>new Date().toISOString()\<close>) at the \<open>k\<close>-th
  call of \<^verbatim>\<open>createMessage\<close>; \<open>axios_get n url\<close> is how the \<open>n\<close>-th request ends,
  \<open>Returns data\<close> for a response of status 2xx with \<^verbatim>\<open>res.data = data\<close>, \<open>Throws\<close> for a
  rejected promise and \<open>Never\<close> for a promise that does not settle (\<^verbatim>\<open>axios.get\<close> is
  called without a timeout); \<open>evalOther n e\<close> is how the \<open>n\<close>-th evaluation ends when
  the expression \<open>e\<close> is outside the arithmetic fragment below, \<open>Returns v\<close> with its
  value, \<open>Throws\<close> when it throws and \<open>Never\<close> when it does not return (the expression
  is text the user typed, and may loop); \<open>readDecimal t\<close> is the number that
  \<^verbatim>\<open>JSON.parse\<close> reads from the number text \<open>t\<close> (the rounding to the nearest double
  is the platform's).
\<close>

datatype 'a outcome = Returns 'a | Throws | Never

record Env =
  uuidv4 :: "nat \<Rightarrow> string"
  now :: "nat \<Rightarrow> string"
  axios_get :: "nat \<Rightarrow> string \<Rightarrow> jsval outcome"
  evalOther :: "nat \<Rightarrow> string \<Rightarrow> jsval outcome"
  readDecimal :: "string \<Rightarrow> jsval"

text \<open>
  The state of the component: the three React states behind \<^verbatim>\<open>messages\<close>, \<^verbatim>\<open>input\<close>
  and \<^verbatim>\<open>loading\<close>, the \<^verbatim>\<open>localStorage\<close> slot \<^verbatim>\<open>chatMessages\<close> (\<open>None\<close> when the key is
  absent), the number of messages created so far, and the logs of the requests sent
  and of the expressions evaluated.
\<close>

record State =
  messages :: "Message list"
  input :: string
  loading :: bool
  chatMessages :: "string option"
  created :: nat
  requests :: "string list"
  evaluated :: "string list"

definition createMessage ::
  "Env \<Rightarrow> nat \<Rightarrow> Sender \<Rightarrow> string \<Rightarrow> MessageType \<Rightarrow> string option \<Rightarrow> jsval \<Rightarrow> Message" where
  "createMessage env k sender' content' ty pluginName' pluginData' =
     \<lparr> id' = uuidv4 env k, sender = sender', content = content', type' = ty,
       pluginName = pluginName', pluginData = pluginData', timestamp = now env k \<rparr>"

text \<open>\<^verbatim>\<open>setMessages(f)\<close> followed by the effect that depends on \<^verbatim>\<open>messages\<close>, which
  writes the new sequence to the slot.\<close>

definition setMessages :: "(Message list \<Rightarrow> Message list) \<Rightarrow> State \<Rightarrow> State" where
  "setMessages f st =
     st\<lparr> messages := f (messages st), chatMessages := Some (serialize (f (messages st))) \<rparr>"

text \<open>\<^verbatim>\<open>setMessages(prev => [...prev, createMessage(...)])\<close>.\<close>

definition appendMessage ::
  "Env \<Rightarrow> Sender \<Rightarrow> string \<Rightarrow> MessageType \<Rightarrow> string option \<Rightarrow> jsval \<Rightarrow> State \<Rightarrow> State" where
  "appendMessage env sender' content' ty pluginName' pluginData' st =
     (let m = createMessage env (created st) sender' content' ty pluginName' pluginData'
      in setMessages (\<lambda>prev. prev @ [m]) (st\<lparr> created := Suc (created st) \<rparr>))"

section \<open>The calculator's evaluator\<close>

text \<open>
  The calculator runs \<^verbatim>\<open>Function(`"use strict";return (${expression})`)()\<close>, the
  platform's evaluator on text the user typed. Its value is fixed here on the
  expressions \<^verbatim>\<open>n1+n2+...+nk\<close> of decimal literals (no sign, no white space, no
  leading zero, which strict mode refuses) whose sum is at most
  \<open>2 ^ 53 = 9007199254740992\<close>, where the arithmetic of doubles is exact; every other
  expression is left to the environment (\<open>evalOther\<close>).
\<close>

definition isDigit :: "char \<Rightarrow> bool" where
  "isDigit c = (48 \<le> (of_char c :: int) \<and> (of_char c :: int) \<le> 57)"

definition readNat :: "string \<Rightarrow> int" where
  "readNat s = foldl (\<lambda>a c. 10 * a + ((of_char c :: int) - 48)) 0 s"

definition decimalLiteral :: "string \<Rightarrow> int option" where
  "decimalLiteral s =
     (if s \<noteq> [] \<and> list_all isDigit s \<and> (length s = 1 \<or> hd s \<noteq> CHR ''0'')
      then Some (readNat s) else None)"

fun sumLiterals :: "string list \<Rightarrow> int option" where
  "sumLiterals [] = Some 0"
| "sumLiterals (p # ps) =
     (case decimalLiteral p of
        None \<Rightarrow> None
      | Some n \<Rightarrow> map_option (\<lambda>m. n + m) (sumLiterals ps))"

definition arithmetic :: "string \<Rightarrow> int option" where
  "arithmetic e =
     (case sumLiterals (split e ''+'') of
        None \<Rightarrow> None
      | Some n \<Rightarrow> if n \<le> 9007199254740992 then Some n else None)"

definition evaluate :: "Env \<Rightarrow> nat \<Rightarrow> string \<Rightarrow> jsval outcome" where
  "evaluate env n e =
     (case arithmetic e of Some v \<Rightarrow> Returns (Num v) | None \<Rightarrow> evalOther env n e)"

section \<open>The command dispatcher\<close>

text \<open>The request URLs. The template literal of the weather request ends with the
  line break that stands before its closing backquote in the source.\<close>

definition weatherUrl :: "string \<Rightarrow> string" where
  "weatherUrl city =
     ''https://api.openweathermap.org/data/2.5/weather?q='' @ city
       @ ''&units=metric&appid=f23af85998c654884e8ba4b7a555ebf0'' @ [CHR 0x0A]"

definition defineUrl :: "string \<Rightarrow> string" where
  "defineUrl word = ''https://api.dictionaryapi.dev/api/v2/entries/en/'' @ word"

text \<open>The body of each \<^verbatim>\<open>try\<close> block up to the new message: \<open>None\<close> when something
  in it throws (a rejected request, a property read of \<^verbatim>\<open>undefined\<close>, a conversion to
  string), which the \<^verbatim>\<open>catch\<close> clause answers with its fixed text.\<close>

definition weatherContent :: "string \<Rightarrow> jsval \<Rightarrow> string option" where
  "weatherContent city weather =
     do {
       ws \<leftarrow> getProp weather ''weather'';
       w \<leftarrow> getIndex ws 0;
       description \<leftarrow> getProp w ''description'';
       d \<leftarrow> toString description;
       main \<leftarrow> getProp weather ''main'';
       temp \<leftarrow> getProp main ''temp'';
       t \<leftarrow> toString temp;
       Some (''Weather in '' @ city @ '': '' @ d @ '', '' @ t @ [CHR 0xB0] @ ''C'')
     }"

text \<open>\<^verbatim>\<open>res.data[0]?.meanings[0]?.definitions[0]?.definition\<close>: each \<^verbatim>\<open>?.\<close> ends the
  whole chain with \<^verbatim>\<open>undefined\<close> when the value before it is \<^verbatim>\<open>undefined\<close> or \<^verbatim>\<open>null\<close>;
  the reads \<^verbatim>\<open>[0]\<close> behind \<^verbatim>\<open>meanings\<close> and \<^verbatim>\<open>definitions\<close> are not guarded.\<close>

definition firstDefinition :: "jsval \<Rightarrow> jsval option" where
  "firstDefinition data =
     do {
       entry \<leftarrow> getIndex data 0;
       if nullish entry then Some Undefined
       else do {
         meanings \<leftarrow> getProp entry ''meanings'';
         meaning \<leftarrow> getIndex meanings 0;
         if nullish meaning then Some Undefined
         else do {
           definitions \<leftarrow> getProp meaning ''definitions'';
           def \<leftarrow> getIndex definitions 0;
           if nullish def then Some Undefined
           else getProp def ''definition''
         }
       }
     }"

definition defineContent :: "string \<Rightarrow> jsval \<Rightarrow> string option" where
  "defineContent word data =
     do {
       found \<leftarrow> firstDefinition data;
       d \<leftarrow> toString (if truthy found then found else Str ''Definition not found'');
       Some (''Definition of '' @ word @ '': '' @ d)
     }"

definition calcContent :: "jsval \<Rightarrow> string option" where
  "calcContent result = map_option (\<lambda>r. ''Result: '' @ r) (toString result)"

definition setLoading :: "bool \<Rightarrow> State \<Rightarrow> State" where
  "setLoading b st = st\<lparr> loading := b \<rparr>"

definition textReply :: "Env \<Rightarrow> string \<Rightarrow> State \<Rightarrow> State" where
  "textReply env content' st = appendMessage env Assistant content' Text None Undefined st"

text \<open>
  The branches of the chain of \<^verbatim>\<open>if\<close>s in the callback. A branch that runs to its
  end reaches \<^verbatim>\<open>setLoading(false)\<close>: the one behind the chain, or the one of the
  guard on the city, which returns early. A branch whose \<^verbatim>\<open>await\<close> never resumes, or
  whose evaluation never returns, stops where it is: no message is added and
  \<^verbatim>\<open>loading\<close> stays as it was.
\<close>

definition weatherHandler :: "Env \<Rightarrow> string \<Rightarrow> State \<Rightarrow> State" where
  "weatherHandler env command st =
     (let city = trim (replaceFirst command ''/weather'' []) in
      if city = [] then setLoading False (textReply env ''Please provide a city.'' st)
      else
        (let st' = st\<lparr> requests := requests st @ [weatherUrl city] \<rparr> in
         case axios_get env (length (requests st)) (weatherUrl city) of
           Never \<Rightarrow> st'
         | Throws \<Rightarrow> setLoading False (textReply env ''City not found or API error.'' st')
         | Returns weather \<Rightarrow>
             setLoading False
               (case weatherContent city weather of
                  None \<Rightarrow> textReply env ''City not found or API error.'' st'
                | Some content' \<Rightarrow>
                    appendMessage env Assistant content' Plugin (Some ''weather'') weather st')))"

definition calcHandler :: "Env \<Rightarrow> string \<Rightarrow> State \<Rightarrow> State" where
  "calcHandler env command st =
     (let expression = trim (replaceFirst command ''/calc'' []);
          st' = st\<lparr> evaluated := evaluated st @ [expression] \<rparr>
      in case evaluate env (length (evaluated st)) expression of
           Never \<Rightarrow> st'
         | Throws \<Rightarrow> setLoading False (textReply env ''Invalid expression'' st')
         | Returns result \<Rightarrow>
             setLoading False
               (case calcContent result of
                  None \<Rightarrow> textReply env ''Invalid expression'' st'
                | Some content' \<Rightarrow>
                    appendMessage env Assistant content' Plugin (Some ''calc'') result st'))"

definition defineHandler :: "Env \<Rightarrow> string \<Rightarrow> State \<Rightarrow> State" where
  "defineHandler env command st =
     (let word = trim (replaceFirst command ''/define'' []);
          st' = st\<lparr> requests := requests st @ [defineUrl word] \<rparr>
      in case axios_get env (length (requests st)) (defineUrl word) of
           Never \<Rightarrow> st'
         | Throws \<Rightarrow> setLoading False (textReply env ''Error fetching definition'' st')
         | Returns data \<Rightarrow>
             setLoading False
               (case defineContent word data of
                  None \<Rightarrow> textReply env ''Error fetching definition'' st'
                | Some content' \<Rightarrow>
                    appendMessage env Assistant content' Plugin (Some ''define'') data st'))"

text \<open>The chain of \<^verbatim>\<open>if\<close>s on the command.\<close>

definition dispatch :: "Env \<Rightarrow> string \<Rightarrow> State \<Rightarrow> State" where
  "dispatch env command st =
     (if startsWith command ''/weather'' then weatherHandler env command st
      else if startsWith command ''/calc'' then calcHandler env command st
      else if startsWith command ''/define'' then defineHandler env command st
      else setLoading False (textReply env ''Unrecognized command.'' st))"

section \<open>Submitting\<close>

text \<open>
  \<^verbatim>\<open>handleSend\<close> up to \<^verbatim>\<open>setTimeout\<close>: the new state and, when a callback was
  scheduled, what its closure holds (the placeholder message and the input as it
  was submitted).
\<close>

definition handleSend :: "Env \<Rightarrow> State \<Rightarrow> State \<times> (Message \<times> string) option" where
  "handleSend env st =
     (if trim (input st) = [] then (st, None)
      else
        (let st1 = appendMessage env User (input st) Text None Undefined st;
             st2 = setLoading True (st1\<lparr> input := [] \<rparr>);
             loadingMsg = createMessage env (created st2) Assistant ''Typing...'' Text None Undefined;
             st3 = setMessages (\<lambda>prev. prev @ [loadingMsg]) (st2\<lparr> created := Suc (created st2) \<rparr>)
         in (st3, Some (loadingMsg, input st))))"

text \<open>The callback that runs after the delay of 2000 ms. \<^verbatim>\<open>if (parsed)\<close> takes the
  rewritten command when it is a non-empty string.\<close>

definition timeoutCallback :: "Env \<Rightarrow> Message \<Rightarrow> string \<Rightarrow> State \<Rightarrow> State" where
  "timeoutCallback env loadingMsg input' st =
     (let st1 = setMessages (filter (\<lambda>msg. id' msg \<noteq> id' loadingMsg)) st;
          command = trim input';
          command' = (case parseNaturalLanguage command of
                        None \<Rightarrow> command
                      | Some parsed \<Rightarrow> if parsed = [] then command else parsed)
      in dispatch env command' st1)"

text \<open>One submission from the key press to the end of its callback, when nothing
  else happens in between.\<close>

definition submit :: "Env \<Rightarrow> State \<Rightarrow> State" where
  "submit env st =
     (case handleSend env st of
        (st', None) \<Rightarrow> st'
      | (st', Some (loadingMsg, input')) \<Rightarrow> timeoutCallback env loadingMsg input' st')"

section \<open>Deserialisation: \<^verbatim>\<open>JSON.parse\<close>\<close>

text \<open>
  The result of \<^verbatim>\<open>JSON.parse\<close>: the value read, the \<^verbatim>\<open>SyntaxError\<close> it throws, or
  \<open>Unmodelled\<close> where the text denotes a value the model does not have (a string
  with a code unit above 255) and the model says nothing.
\<close>

datatype 'a parsed = Parsed 'a | SyntaxError | Unmodelled

definition isJSONSpace :: "char \<Rightarrow> bool" where
  "isJSONSpace c = (c = CHR '' '' \<or> c = CHR 0x09 \<or> c = CHR 0x0A \<or> c = CHR 0x0D)"

definition skipSpace :: "string \<Rightarrow> string" where
  "skipSpace s = dropWhile isJSONSpace s"

definition hexValue :: "char \<Rightarrow> nat option" where
  "hexValue c =
     (let n = (of_char c :: nat) in
      if 48 \<le> n \<and> n \<le> 57 then Some (n - 48)
      else if 97 \<le> n \<and> n \<le> 102 then Some (n - 87)
      else if 65 \<le> n \<and> n \<le> 70 then Some (n - 55)
      else None)"

text \<open>The character behind a backslash, for the escapes of one letter.\<close>

definition unescape :: "char \<Rightarrow> char option" where
  "unescape e =
     (if e = CHR 0x22 then Some (CHR 0x22)
      else if e = CHR 0x5C then Some (CHR 0x5C)
      else if e = CHR ''/'' then Some (CHR ''/'')
      else if e = CHR ''b'' then Some (CHR 0x08)
      else if e = CHR ''f'' then Some (CHR 0x0C)
      else if e = CHR ''n'' then Some (CHR 0x0A)
      else if e = CHR ''r'' then Some (CHR 0x0D)
      else if e = CHR ''t'' then Some (CHR 0x09)
      else None)"

definition consChar :: "char \<Rightarrow> (string \<times> string) parsed \<Rightarrow> (string \<times> string) parsed" where
  "consChar c r = (case r of Parsed (s, rest) \<Rightarrow> Parsed (c # s, rest) | e \<Rightarrow> e)"

text \<open>A string behind its opening quotation mark: the characters up to the closing
  one, and the text behind it.\<close>

fun parseChars :: "string \<Rightarrow> (string \<times> string) parsed" where
  "parseChars [] = SyntaxError"
| "parseChars (c # cs) =
     (if c = CHR 0x22 then Parsed ([], cs)
      else if c = CHR 0x5C then
        (case cs of
           [] \<Rightarrow> SyntaxError
         | e # r \<Rightarrow>
             if e = CHR ''u'' then
               (case r of
                  h1 # h2 # h3 # h4 # r' \<Rightarrow>
                    (case (hexValue h1, hexValue h2, hexValue h3, hexValue h4) of
                       (Some a, Some b, Some c', Some d) \<Rightarrow>
                         if a = 0 \<and> b = 0 then consChar (char_of (16 * c' + d)) (parseChars r')
                         else Unmodelled
                     | _ \<Rightarrow> SyntaxError)
                | _ \<Rightarrow> SyntaxError)
             else (case unescape e of
                     None \<Rightarrow> SyntaxError
                   | Some x \<Rightarrow> consChar x (parseChars r)))
      else if (of_char c :: nat) < 0x20 then SyntaxError
      else consChar c (parseChars cs))"

text \<open>
  A number text of the JSON grammar: an optional minus sign, the integer part
  (\<^verbatim>\<open>0\<close>, or digits that start with another digit), an optional fraction (a point
  and digits) and an optional exponent (\<^verbatim>\<open>e\<close> or \<^verbatim>\<open>E\<close>, an optional sign and digits).
  Each part is cut off the front of the text; \<open>None\<close> where the grammar has no
  number.
\<close>

definition lexDigits :: "string \<Rightarrow> string \<times> string" where
  "lexDigits s = (takeWhile isDigit s, dropWhile isDigit s)"

definition lexInteger :: "string \<Rightarrow> (string \<times> string) option" where
  "lexInteger s =
     (case s of
        [] \<Rightarrow> None
      | c # r \<Rightarrow>
          if c = CHR ''0'' then Some (''0'', r)
          else if isDigit c then Some (lexDigits s)
          else None)"

definition lexFraction :: "string \<Rightarrow> (string \<times> string) option" where
  "lexFraction s =
     (case s of
        [] \<Rightarrow> Some ([], [])
      | c # r \<Rightarrow>
          if c \<noteq> CHR ''.'' then Some ([], s)
          else if fst (lexDigits r) = [] then None
          else Some (c # fst (lexDigits r), snd (lexDigits r)))"

definition lexSign :: "string \<Rightarrow> string" where
  "lexSign s = (case s of [] \<Rightarrow> [] | c # r \<Rightarrow> if c = CHR ''+'' \<or> c = CHR ''-'' then [c] else [])"

definition lexExponent :: "string \<Rightarrow> (string \<times> string) option" where
  "lexExponent s =
     (case s of
        [] \<Rightarrow> Some ([], [])
      | c # r \<Rightarrow>
          if c \<noteq> CHR ''e'' \<and> c \<noteq> CHR ''E'' then Some ([], s)
          else
            (let sign = lexSign r; r' = drop (length sign) r in
             if fst (lexDigits r') = [] then None
             else Some (c # sign @ fst (lexDigits r'), snd (lexDigits r'))))"

text \<open>The parts of the number at the front of a text (whether it has a minus sign,
  the integer part, the fraction, the exponent) and the text behind it.\<close>

definition lexNumber :: "string \<Rightarrow> (bool \<times> string \<times> string \<times> string \<times> string) option" where
  "lexNumber s =
     (let negative = (s \<noteq> [] \<and> hd s = CHR ''-'') in
      case lexInteger (if negative then tl s else s) of
        None \<Rightarrow> None
      | Some (i, r1) \<Rightarrow>
          (case lexFraction r1 of
             None \<Rightarrow> None
           | Some (f, r2) \<Rightarrow>
               (case lexExponent r2 of
                  None \<Rightarrow> None
                | Some (e, r3) \<Rightarrow> Some (negative, i, f, e, r3))))"

definition numberText :: "bool \<Rightarrow> string \<Rightarrow> string \<Rightarrow> string \<Rightarrow> string" where
  "numberText negative i f e = (if negative then ''-'' else []) @ i @ f @ e"

text \<open>A number text without fraction and exponent whose digits give at most
  \<open>2 ^ 53\<close> is read exactly.\<close>

definition safeInteger :: "string \<Rightarrow> string \<Rightarrow> string \<Rightarrow> bool" where
  "safeInteger i f e = (f = [] \<and> e = [] \<and> readNat i \<le> 9007199254740992)"

text \<open>The number read: a safe integer by its digits (\<^verbatim>\<open>-0\<close> is the negative zero),
  every other number by the platform.\<close>

definition parseNumber :: "Env \<Rightarrow> string \<Rightarrow> (jsval \<times> string) parsed" where
  "parseNumber env s =
     (case lexNumber s of
        None \<Rightarrow> SyntaxError
      | Some (negative, i, f, e, rest) \<Rightarrow>
          if safeInteger i f e then
            Parsed (if negative then (if readNat i = 0 then NegZero else Num (- readNat i))
                    else Num (readNat i), rest)
          else Parsed (readDecimal env (numberText negative i f e), rest))"

text \<open>
  A property name that is an array index (the decimal text of an integer from 0 to
  \<open>2 ^ 32 - 2\<close>) and its value. An object enumerates such names first, in
  ascending order, and its other names behind them in the order in which they were
  added.
\<close>

definition arrayIndex :: "string \<Rightarrow> int option" where
  "arrayIndex k =
     (case decimalLiteral k of
        None \<Rightarrow> None
      | Some i \<Rightarrow> if i \<le> 4294967294 then Some i else None)"

fun insertIndexed :: "int \<Rightarrow> string \<times> jsval \<Rightarrow> (string \<times> jsval) list \<Rightarrow> (string \<times> jsval) list" where
  "insertIndexed i new [] = [new]"
| "insertIndexed i new (kv # kvs) =
     (case arrayIndex (fst kv) of
        None \<Rightarrow> new # kv # kvs
      | Some j \<Rightarrow> if j < i then kv # insertIndexed i new kvs else new # kv # kvs)"

text \<open>Defining a property: a name that the object has keeps its place and gets the
  new value; a new name goes to its place in the enumeration order.\<close>

definition setMember :: "(string \<times> jsval) list \<Rightarrow> string \<Rightarrow> jsval \<Rightarrow> (string \<times> jsval) list" where
  "setMember kvs k v =
     (if k \<in> set (map fst kvs) then map (\<lambda>kv. if fst kv = k then (k, v) else kv) kvs
      else case arrayIndex k of
             None \<Rightarrow> kvs @ [(k, v)]
           | Some i \<Rightarrow> insertIndexed i (k, v) kvs)"

text \<open>
  The values. The number argument bounds the depth of the recursion, which goes
  down by one from a value to its first element and from an element or member to
  the next; \<open>JSON_parse\<close> starts it at twice the length of the text and two more. A
  parser that ran out of it would answer \<open>Unmodelled\<close>.
\<close>

fun parseValue :: "Env \<Rightarrow> nat \<Rightarrow> string \<Rightarrow> (jsval \<times> string) parsed"
  and parseElements :: "Env \<Rightarrow> nat \<Rightarrow> jsval list \<Rightarrow> string \<Rightarrow> (jsval \<times> string) parsed"
  and parseMembers ::
    "Env \<Rightarrow> nat \<Rightarrow> (string \<times> jsval) list \<Rightarrow> string \<Rightarrow> (jsval \<times> string) parsed" where
  "parseValue env 0 s = Unmodelled"
| "parseValue env (Suc n) s =
     (case skipSpace s of
        [] \<Rightarrow> SyntaxError
      | c # r \<Rightarrow>
          if c = CHR ''['' then
            (if skipSpace r \<noteq> [] \<and> hd (skipSpace r) = CHR '']''
             then Parsed (Arr [], tl (skipSpace r))
             else parseElements env n [] r)
          else if c = CHR ''{'' then
            (if skipSpace r \<noteq> [] \<and> hd (skipSpace r) = CHR ''}''
             then Parsed (Obj [], tl (skipSpace r))
             else parseMembers env n [] r)
          else if c = CHR 0x22 then
            (case parseChars r of
               Parsed (str, r') \<Rightarrow> Parsed (Str str, r')
             | SyntaxError \<Rightarrow> SyntaxError
             | Unmodelled \<Rightarrow> Unmodelled)
          else if c = CHR ''-'' \<or> isDigit c then parseNumber env (c # r)
          else if prefix ''true'' (c # r) then Parsed (Boolean True, drop 4 (c # r))
          else if prefix ''false'' (c # r) then Parsed (Boolean False, drop 5 (c # r))
          else if prefix ''null'' (c # r) then Parsed (Null, drop 4 (c # r))
          else SyntaxError)"
| "parseElements env 0 acc s = Unmodelled"
| "parseElements env (Suc n) acc s =
     (case parseValue env n s of
        Parsed (v, r) \<Rightarrow>
          (case skipSpace r of
             [] \<Rightarrow> SyntaxError
           | c # r' \<Rightarrow>
               if c = CHR '','' then parseElements env n (acc @ [v]) r'
               else if c = CHR '']'' then Parsed (Arr (acc @ [v]), r')
               else SyntaxError)
      | SyntaxError \<Rightarrow> SyntaxError
      | Unmodelled \<Rightarrow> Unmodelled)"
| "parseMembers env 0 acc s = Unmodelled"
| "parseMembers env (Suc n) acc s =
     (case skipSpace s of
        [] \<Rightarrow> SyntaxError
      | q # r \<Rightarrow>
          if q \<noteq> CHR 0x22 then SyntaxError
          else
            (case parseChars r of
               Parsed (k, r1) \<Rightarrow>
                 (case skipSpace r1 of
                    [] \<Rightarrow> SyntaxError
                  | c # r2 \<Rightarrow>
                      if c \<noteq> CHR '':'' then SyntaxError
                      else
                        (case parseValue env n r2 of
                           Parsed (v, r3) \<Rightarrow>
                             (case skipSpace r3 of
                                [] \<Rightarrow> SyntaxError
                              | d # r4 \<Rightarrow>
                                  if d = CHR '','' then parseMembers env n (setMember acc k v) r4
                                  else if d = CHR ''}'' then Parsed (Obj (setMember acc k v), r4)
                                  else SyntaxError)
                         | SyntaxError \<Rightarrow> SyntaxError
                         | Unmodelled \<Rightarrow> Unmodelled))
             | SyntaxError \<Rightarrow> SyntaxError
             | Unmodelled \<Rightarrow> Unmodelled))"

definition JSON_parse :: "Env \<Rightarrow> string \<Rightarrow> jsval parsed" where
  "JSON_parse env s =
     (case parseValue env (2 * length s + 2) s of
        Parsed (v, rest) \<Rightarrow> if skipSpace rest = [] then Parsed v else SyntaxError
      | SyntaxError \<Rightarrow> SyntaxError
      | Unmodelled \<Rightarrow> Unmodelled)"

section \<open>Initialisation\<close>

text \<open>
  The initialiser of the \<^verbatim>\<open>messages\<close> state:
  \<^verbatim>\<open>saved ? JSON.parse(saved) : []\<close>, where \<^verbatim>\<open>saved\<close> is what \<^verbatim>\<open>localStorage.getItem\<close>
  gives for the key \<^verbatim>\<open>chatMessages\<close> (\<open>None\<close> for \<^verbatim>\<open>null\<close>). The empty string is falsy.
  Nothing catches what \<^verbatim>\<open>JSON.parse\<close> throws.
\<close>

definition initMessages :: "Env \<Rightarrow> string option \<Rightarrow> jsval parsed" where
  "initMessages env saved =
     (case saved of
        None \<Rightarrow> Parsed (Arr [])
      | Some s \<Rightarrow> if s = [] then Parsed (Arr []) else JSON_parse env s)"

text \<open>
  The parsed value is used as a \<^verbatim>\<open>Message[]\<close> without a check. \<open>asMessages\<close> reads a
  value at that type: the fields of each object by name, an optional field that is
  missing as \<^verbatim>\<open>undefined\<close>; \<open>None\<close> when the value is not of the declared shape.
\<close>

definition asString :: "jsval \<Rightarrow> string option" where
  "asString v = (case v of Str s \<Rightarrow> Some s | _ \<Rightarrow> None)"

definition asSender :: "jsval \<Rightarrow> Sender option" where
  "asSender v =
     (if v = Str ''user'' then Some User
      else if v = Str ''assistant'' then Some Assistant else None)"

definition asMessageType :: "jsval \<Rightarrow> MessageType option" where
  "asMessageType v =
     (if v = Str ''text'' then Some Text
      else if v = Str ''plugin'' then Some Plugin else None)"

definition asMessage :: "jsval \<Rightarrow> Message option" where
  "asMessage v =
     (case v of
        Obj kvs \<Rightarrow>
          do {
            i \<leftarrow> Option.bind (map_of kvs ''id'') asString;
            s \<leftarrow> Option.bind (map_of kvs ''sender'') asSender;
            c \<leftarrow> Option.bind (map_of kvs ''content'') asString;
            t \<leftarrow> Option.bind (map_of kvs ''type'') asMessageType;
            pn \<leftarrow> (case map_of kvs ''pluginName'' of
                     None \<Rightarrow> Some None
                   | Some Undefined \<Rightarrow> Some None
                   | Some (Str n) \<Rightarrow> Some (Some n)
                   | Some _ \<Rightarrow> None);
            ts \<leftarrow> Option.bind (map_of kvs ''timestamp'') asString;
            Some \<lparr> id' = i, sender = s, content = c, type' = t, pluginName = pn,
                   pluginData = (case map_of kvs ''pluginData'' of None \<Rightarrow> Undefined | Some d \<Rightarrow> d),
                   timestamp = ts \<rparr>
          }
      | _ \<Rightarrow> None)"

definition asMessages :: "jsval \<Rightarrow> Message list option" where
  "asMessages v = (case v of Arr vs \<Rightarrow> those (map asMessage vs) | _ \<Rightarrow> None)"

text \<open>Loading the component again: the transcript it starts with, when the slot
  holds a text that parses to messages.\<close>

definition rehydrate :: "Env \<Rightarrow> string option \<Rightarrow> Message list option" where
  "rehydrate env saved =
     (case initMessages env saved of Parsed v \<Rightarrow> asMessages v | _ \<Rightarrow> None)"

section \<open>The values of JavaScript and the values of JSON\<close>






section \<open>The words of the specification, next to the code\<close>

text \<open>The part of \<open>s\<close> behind the first occurrence of the phrase \<open>p\<close>, and the part
  of \<open>s\<close> before it.\<close>

definition afterPhrase :: "string \<Rightarrow> string \<Rightarrow> string" where
  "afterPhrase s p = (case indexOf s p of None \<Rightarrow> [] | Some i \<Rightarrow> drop (i + length p) s)"

definition beforePhrase :: "string \<Rightarrow> string \<Rightarrow> string" where
  "beforePhrase s p = (case indexOf s p of None \<Rightarrow> s | Some i \<Rightarrow> take i s)"

text \<open>The specification's reading of the weather rule: the text behind the phrase,
  in lower case, trimmed, and with the punctuation at its end taken off.\<close>

definition stripTrailingPunctuation :: "string \<Rightarrow> string" where
  "stripTrailingPunctuation s = rev (dropWhile (\<lambda>c. c \<in> set ''?.,'') (rev s))"

definition specWeatherCommand :: "string \<Rightarrow> string" where
  "specWeatherCommand text' =
     ''/weather '' @ stripTrailingPunctuation (trim (afterPhrase (toLowerCase text') ''weather in''))"

section \<open>The invariant of the transcript\<close>

definition uniqueIds :: "Message list \<Rightarrow> bool" where
  "uniqueIds ms = distinct (map id' ms)"

text \<open>Timestamps are ISO-8601 strings of one fixed format, which the lexicographic
  order on strings compares as instants.\<close>

definition timestampsOrdered :: "Message list \<Rightarrow> bool" where
  "timestampsOrdered ms = sorted (map timestamp ms)"

definition pluginFieldsOnPluginOnly :: "Message list \<Rightarrow> bool" where
  "pluginFieldsOnPluginOnly ms =
     (\<forall>m \<in> set ms. type' m = Text \<longrightarrow> pluginName m = None \<and> pluginData m = Undefined)"

definition transcriptInvariant :: "Message list \<Rightarrow> bool" where
  "transcriptInvariant ms = (uniqueIds ms \<and> timestampsOrdered ms \<and> pluginFieldsOnPluginOnly ms)"

text \<open>
  What the invariant needs from outside the component: the ids that \<^verbatim>\<open>uuidv4\<close> has
  still to draw differ from one another and from the ids in the transcript, and the
  clock does not run backwards nor behind a timestamp in the transcript.
\<close>

definition environmentOk :: "Env \<Rightarrow> State \<Rightarrow> bool" where
  "environmentOk env st =
     ((\<forall>j k. created st \<le> j \<and> j < k \<longrightarrow> uuidv4 env j \<noteq> uuidv4 env k)
      \<and> (\<forall>k m. created st \<le> k \<and> m \<in> set (messages st) \<longrightarrow> id' m \<noteq> uuidv4 env k)
      \<and> (\<forall>j k. created st \<le> j \<and> j \<le> k \<longrightarrow> now env j \<le> now env k)
      \<and> (\<forall>k m. created st \<le> k \<and> m \<in> set (messages st) \<longrightarrow> timestamp m \<le> now env k))"

section \<open>A sample environment and state\<close>

text \<open>An environment in which every lookup is rejected and every expression outside
  the arithmetic fragment throws, and an empty component. Its ids are \<^verbatim>\<open>u\<close>, \<^verbatim>\<open>uu\<close>,
  \<^verbatim>\<open>uuu\<close> and so on, its clock stands still, and it reads a number text as the number
  that prints as that text (which is what the platform reads from a text that
  \<^verbatim>\<open>Number::toString\<close> prints, as \<^verbatim>\<open>21.5\<close>).\<close>

definition sampleEnv :: Env where
  "sampleEnv =
     \<lparr> uuidv4 = (\<lambda>k. replicate (Suc k) CHR ''u''),
       now = (\<lambda>k. ''2024-05-01T10:00:00.000Z''),
       axios_get = (\<lambda>n url. Throws),
       evalOther = (\<lambda>n e. Throws),
       readDecimal = Decimal \<rparr>"

definition sampleState :: State where
  "sampleState =
     \<lparr> messages = [], input = [], loading = False, chatMessages = None,
       created = 0, requests = [], evaluated = [] \<rparr>"

section \<open>What storage keeps of a message\<close>



section \<open>More sample environments\<close>

text \<open>A weather response as the lookup returns it, cut down to what the component
  reads and to one property with an index for its name.\<close>

definition parisWeather :: jsval where
  "parisWeather =
     Obj [(''0'', Str ''metric''),
          (''weather'', Arr [Obj [(''id'', Num 800), (''description'', Str ''clear sky'')]]),
          (''main'', Obj [(''temp'', Decimal ''21.5''), (''humidity'', Num 40)]),
          (''name'', Str ''Paris'')]"

text \<open>An environment in which every lookup returns that response.\<close>

definition weatherEnv :: Env where
  "weatherEnv = sampleEnv\<lparr> axios_get := \<lambda>n url. Returns parisWeather \<rparr>"


text \<open>An environment in which \<^verbatim>\<open>uuidv4\<close> draws the same id again and again, and one
  whose clock is set back by a second after the first reading.\<close>

definition repeatingEnv :: Env where
  "repeatingEnv = sampleEnv\<lparr> uuidv4 := \<lambda>k. ''u'' \<rparr>"

definition backwardEnv :: Env where
  "backwardEnv =
     sampleEnv\<lparr> now := \<lambda>k. if k = 0 then ''2024-05-01T10:00:01.000Z''
                                else ''2024-05-01T10:00:00.000Z'' \<rparr>"

section \<open>Replies\<close>

text \<open>What a reply does to the transcript: one message from the assistant behind
  it, with plugin fields only when it is a plugin message.\<close>

definition replied :: "Env \<Rightarrow> State \<Rightarrow> State \<Rightarrow> bool" where
  "replied env st st' =
     (\<exists>c t pn pd. messages st'
          = messages st @ [createMessage env (created st) Assistant c t pn pd]
        \<and> (t = Text \<longrightarrow> pn = None \<and> pd = Undefined)
        \<and> created st' = Suc (created st))"

section \<open>Facts about the string functions\<close>

lemma indexOf_prefix: "prefix p s \<Longrightarrow> indexOf s p = Some 0"
  by (cases s) simp_all

text \<open>\<open>indexOf\<close> finds the first occurrence, and \<open>includes_str\<close> says that there is
  one.\<close>

lemma indexOf_first:
  "indexOf s p = Some i \<Longrightarrow> prefix p (drop i s) \<and> (\<forall>j<i. \<not> prefix p (drop j s))"
proof (induction s arbitrary: i)
  case Nil
  then show ?case by (simp split: if_splits)
next
  case (Cons c cs)
  show ?case
  proof (cases "prefix p (c # cs)")
    case True
    with Cons.prems show ?thesis by simp
  next
    case False
    with Cons.prems obtain k where k: "indexOf cs p = Some k" "i = Suc k"
      by auto
    from Cons.IH [OF k(1)] have "prefix p (drop k cs)" and "\<forall>j<k. \<not> prefix p (drop j cs)"
      by simp_all
    with False k(2) show ?thesis
      by (auto simp: less_Suc_eq_0_disj)
  qed
qed

lemma includes_str_iff: "includes_str s p \<longleftrightarrow> (\<exists>a b. s = a @ p @ b)"
proof
  assume "includes_str s p"
  then obtain i where "indexOf s p = Some i"
    by (auto simp: includes_str_def)
  then have "prefix p (drop i s)"
    using indexOf_first by blast
  then obtain b where "drop i s = p @ b"
    by (auto simp: prefix_def)
  then have "s = take i s @ p @ b"
    by (metis append_take_drop_id)
  then show "\<exists>a b. s = a @ p @ b" by blast
next
  assume "\<exists>a b. s = a @ p @ b"
  then obtain a b where s: "s = a @ p @ b" by blast
  have "indexOf (a @ p @ b) p \<noteq> None"
  proof (induction a)
    case Nil
    have "prefix p (p @ b)" by simp
    then show ?case by (simp add: indexOf_prefix del: same_prefix_nil)
  next
    case (Cons x a)
    then show ?case by auto
  qed
  with s show "includes_str s p" by (simp add: includes_str_def)
qed

lemma replaceFirst_startsWith:
  "startsWith s p \<Longrightarrow> replaceFirst s p r = r @ drop (length p) s"
  by (simp add: startsWith_def replaceFirst_def indexOf_prefix)

lemma split_found:
  "sep \<noteq> [] \<Longrightarrow> indexOf s sep = Some i \<Longrightarrow>
     split s sep = take i s # split (drop (i + length sep) s) sep"
  by (subst split.simps) simp

lemma split_hd: "sep \<noteq> [] \<Longrightarrow> \<exists>rest. split s sep = beforePhrase s sep # rest"
  by (subst split.simps) (simp add: beforePhrase_def split: option.splits)

lemma split_second:
  assumes "sep \<noteq> []" and "includes_str s sep"
  shows "at (split s sep) 1 = Some (beforePhrase (afterPhrase s sep) sep)"
proof -
  from assms(2) obtain i where i: "indexOf s sep = Some i"
    by (auto simp: includes_str_def)
  obtain rest where "split (drop (i + length sep) s) sep
      = beforePhrase (drop (i + length sep) s) sep # rest"
    using split_hd [OF assms(1)] by blast
  with i assms(1) show ?thesis
    by (simp add: split_found at_def afterPhrase_def)
qed

section \<open>Facts about the state operations\<close>

lemma setMessages_fields [simp]:
  "messages (setMessages f st) = f (messages st)"
  "chatMessages (setMessages f st) = Some (serialize (f (messages st)))"
  "input (setMessages f st) = input st"
  "loading (setMessages f st) = loading st"
  "created (setMessages f st) = created st"
  "requests (setMessages f st) = requests st"
  "evaluated (setMessages f st) = evaluated st"
  by (simp_all add: setMessages_def)

lemma setLoading_fields [simp]:
  "messages (setLoading b st) = messages st"
  "chatMessages (setLoading b st) = chatMessages st"
  "input (setLoading b st) = input st"
  "loading (setLoading b st) = b"
  "created (setLoading b st) = created st"
  "requests (setLoading b st) = requests st"
  "evaluated (setLoading b st) = evaluated st"
  by (simp_all add: setLoading_def)

lemma appendMessage_fields [simp]:
  "messages (appendMessage env s c t pn pd st)
     = messages st @ [createMessage env (created st) s c t pn pd]"
  "chatMessages (appendMessage env s c t pn pd st)
     = Some (serialize (messages st @ [createMessage env (created st) s c t pn pd]))"
  "input (appendMessage env s c t pn pd st) = input st"
  "loading (appendMessage env s c t pn pd st) = loading st"
  "created (appendMessage env s c t pn pd st) = Suc (created st)"
  "requests (appendMessage env s c t pn pd st) = requests st"
  "evaluated (appendMessage env s c t pn pd st) = evaluated st"
  by (simp_all add: appendMessage_def Let_def)

lemma createMessage_fields [simp]:
  "id' (createMessage env k s c t pn pd) = uuidv4 env k"
  "sender (createMessage env k s c t pn pd) = s"
  "content (createMessage env k s c t pn pd) = c"
  "type' (createMessage env k s c t pn pd) = t"
  "pluginName (createMessage env k s c t pn pd) = pn"
  "pluginData (createMessage env k s c t pn pd) = pd"
  "timestamp (createMessage env k s c t pn pd) = now env k"
  by (simp_all add: createMessage_def)

section \<open>Facts about the replies\<close>

lemma weather_city:
  "startsWith command ''/weather''
     \<Longrightarrow> trim (replaceFirst command ''/weather'' []) = trim (drop 8 command)"
  by (simp add: replaceFirst_startsWith eval_nat_numeral)

lemma textReply_fields [simp]:
  "messages (textReply env c st)
     = messages st @ [createMessage env (created st) Assistant c Text None Undefined]"
  "chatMessages (textReply env c st)
     = Some (serialize (messages st @ [createMessage env (created st) Assistant c Text None Undefined]))"
  "input (textReply env c st) = input st"
  "loading (textReply env c st) = loading st"
  "created (textReply env c st) = Suc (created st)"
  "requests (textReply env c st) = requests st"
  "evaluated (textReply env c st) = evaluated st"
  by (simp_all add: textReply_def)

lemma replied_text: "messages s = messages st \<Longrightarrow> created s = created st
    \<Longrightarrow> replied env st (setLoading False (textReply env content' s))"
  unfolding replied_def
  by (rule exI [of _ content'], rule exI [of _ Text], rule exI [of _ None],
      rule exI [of _ Undefined]) simp

lemma replied_plugin: "messages s = messages st \<Longrightarrow> created s = created st
    \<Longrightarrow> replied env st
          (setLoading False (appendMessage env Assistant content' Plugin name data s))"
  unfolding replied_def
  by (rule exI [of _ content'], rule exI [of _ Plugin], rule exI [of _ name],
      rule exI [of _ data]) simp

lemma replied_either:
  "messages s = messages st \<Longrightarrow> created s = created st
    \<Longrightarrow> replied env st
          (setLoading False
             (case x of None \<Rightarrow> textReply env content' s
              | Some c \<Rightarrow> appendMessage env Assistant c Plugin name data s))"
  by (cases x) (simp_all add: replied_text replied_plugin)

lemma weatherHandler_replies:
  "(axios_get env (length (requests st))
        (weatherUrl (trim (replaceFirst command ''/weather'' []))) = Never
      \<and> trim (replaceFirst command ''/weather'' []) \<noteq> []
      \<and> messages (weatherHandler env command st) = messages st
      \<and> created (weatherHandler env command st) = created st)
   \<or> replied env st (weatherHandler env command st)"
proof (cases "trim (replaceFirst command ''/weather'' []) = []")
  case True
  then show ?thesis
    by (simp add: weatherHandler_def replied_text)
next
  case False
  let ?url = "weatherUrl (trim (replaceFirst command ''/weather'' []))"
  show ?thesis
  proof (cases "axios_get env (length (requests st)) ?url")
    case (Returns weather)
    with False show ?thesis
      by (simp add: weatherHandler_def Let_def replied_either)
  next
    case Throws
    with False show ?thesis
      by (simp add: weatherHandler_def Let_def replied_text)
  next
    case Never
    with False show ?thesis
      by (simp add: weatherHandler_def Let_def)
  qed
qed

lemma evaluate_Never: "evaluate env n e = Never \<Longrightarrow> evalOther env n e = Never"
  by (simp add: evaluate_def split: option.splits)

lemma calcHandler_replies:
  "(evalOther env (length (evaluated st)) (trim (replaceFirst command ''/calc'' [])) = Never
      \<and> messages (calcHandler env command st) = messages st
      \<and> created (calcHandler env command st) = created st)
   \<or> replied env st (calcHandler env command st)"
proof (cases "evaluate env (length (evaluated st)) (trim (replaceFirst command ''/calc'' []))")
  case (Returns result)
  then show ?thesis
    by (simp add: calcHandler_def Let_def replied_either)
next
  case Throws
  then show ?thesis
    by (simp add: calcHandler_def Let_def replied_text)
next
  case Never
  then show ?thesis
    by (simp add: calcHandler_def Let_def evaluate_Never)
qed

lemma defineHandler_replies:
  "(axios_get env (length (requests st))
        (defineUrl (trim (replaceFirst command ''/define'' []))) = Never
      \<and> messages (defineHandler env command st) = messages st
      \<and> created (defineHandler env command st) = created st)
   \<or> replied env st (defineHandler env command st)"
proof (cases "axios_get env (length (requests st))
                (defineUrl (trim (replaceFirst command ''/define'' [])))")
  case (Returns data)
  then show ?thesis
    by (simp add: defineHandler_def Let_def replied_either)
next
  case Throws
  then show ?thesis
    by (simp add: defineHandler_def Let_def replied_text)
next
  case Never
  then show ?thesis
    by (simp add: defineHandler_def Let_def)
qed

text \<open>The dispatcher replies, unless the lookup of the command does not settle or
  its evaluation does not return: then it leaves the transcript as it is.\<close>

lemma dispatch_replies:
  "(((\<exists>url. axios_get env (length (requests st)) url = Never)
       \<or> (\<exists>e. evalOther env (length (evaluated st)) e = Never))
      \<and> messages (dispatch env command st) = messages st
      \<and> created (dispatch env command st) = created st)
   \<or> replied env st (dispatch env command st)"
  using weatherHandler_replies [of env st command] calcHandler_replies [of env st command]
    defineHandler_replies [of env st command] replied_text [of st st env]
  unfolding dispatch_def by (simp only: split: if_split) blast



section \<open>The rewriter\<close>

text \<open>
  C4, as the code has it. For the input \<^verbatim>\<open>what is 2+2\<close> the rewriter removes the
  phrase and trims what is left, so the command it yields is \<^verbatim>\<open>/calc 2+2\<close> with one
  space behind \<^verbatim>\<open>/calc\<close>; the calculator handler applied to that command appends one
  plugin message whose content is \<^verbatim>\<open>Result: 4\<close>, with the plugin name \<^verbatim>\<open>calc\<close> and
  the number 4 as its data.
\<close>

theorem C4_what_is_2_plus_2:
  "parseNaturalLanguage ''what is 2+2'' = Some ''/calc 2+2''
   \<and> messages (calcHandler env ''/calc 2+2'' st)
       = messages st @ [createMessage env (created st) Assistant ''Result: 4'' Plugin
                          (Some ''calc'') (Num 4)]"
proof -
  have rewrite: "parseNaturalLanguage ''what is 2+2'' = Some ''/calc 2+2''"
    by code_simp
  have expression: "trim (replaceFirst ''/calc 2+2'' ''/calc'' []) = ''2+2''"
    by code_simp
  have "arithmetic ''2+2'' = Some 4"
    by code_simp
  then have result: "evaluate env n ''2+2'' = Returns (Num 4)" for n
    by (simp add: evaluate_def)
  have shown: "calcContent (Num 4) = Some ''Result: 4''"
    by code_simp
  have "messages (calcHandler env ''/calc 2+2'' st)
      = messages st @ [createMessage env (created st) Assistant ''Result: 4'' Plugin
                          (Some ''calc'') (Num 4)]"
    by (simp add: calcHandler_def expression result shown)
  with rewrite show ?thesis by simp
qed

text \<open>C4 as the claim states it, with two spaces behind \<^verbatim>\<open>/calc\<close>, does not hold.\<close>

theorem C4_two_spaces_counterexample:
  "parseNaturalLanguage ''what is 2+2'' \<noteq> Some ''/calc  2+2''"
  by code_simp

text \<open>
  C5, as the code has it. For every text whose lower-case form contains
  \<^verbatim>\<open>weather in\<close>, the rewriter yields \<^verbatim>\<open>/weather x\<close>, where \<open>x\<close> is taken from the
  lower-case text: the part behind the first occurrence of the phrase and before
  its next occurrence (if there is one), trimmed, and then with every \<^verbatim>\<open>?\<close>, \<^verbatim>\<open>.\<close>
  and \<^verbatim>\<open>,\<close> removed, wherever it stands.
\<close>

theorem C5_weather_rewrite:
  assumes "includes_str (toLowerCase text') ''weather in''"
  shows "parseNaturalLanguage text'
    = Some (''/weather '' @ stripPunctuation (trim
        (beforePhrase (afterPhrase (toLowerCase text') ''weather in'') ''weather in'')))"
proof -
  have "at (split (toLowerCase text') ''weather in'') 1
      = Some (beforePhrase (afterPhrase (toLowerCase text') ''weather in'') ''weather in'')"
    using assms by (intro split_second) simp_all
  with assms show ?thesis
    by (simp add: parseNaturalLanguage_def)
qed

theorem C5_weather_rewrite_witness:
  "includes_str (toLowerCase ''Weather in St. Louis, MO? Or weather in Rome'') ''weather in''
   \<and> parseNaturalLanguage ''Weather in St. Louis, MO? Or weather in Rome''
       = Some ''/weather st louis mo or''"
proof -
  have h: "includes_str (toLowerCase ''Weather in St. Louis, MO? Or weather in Rome'') ''weather in''"
    by code_simp
  have "stripPunctuation (trim (beforePhrase
          (afterPhrase (toLowerCase ''Weather in St. Louis, MO? Or weather in Rome'') ''weather in'')
          ''weather in'')) = ''st louis mo or''"
    by code_simp
  with h C5_weather_rewrite [OF h] show ?thesis by simp
qed

text \<open>C5 as the claim states it (only the punctuation at the end is taken off, the
  punctuation inside the city is kept) fails for \<^verbatim>\<open>weather in st. louis\<close>: the code
  yields \<^verbatim>\<open>/weather st louis\<close>.\<close>

theorem C5_inner_punctuation_counterexample:
  "\<not> (\<forall>text'. includes_str (toLowerCase text') ''weather in''
         \<longrightarrow> parseNaturalLanguage text' = Some (specWeatherCommand text'))"
proof
  assume "\<forall>text'. includes_str (toLowerCase text') ''weather in''
         \<longrightarrow> parseNaturalLanguage text' = Some (specWeatherCommand text')"
  moreover have "includes_str (toLowerCase ''weather in st. louis'') ''weather in''"
    by code_simp
  ultimately have "parseNaturalLanguage ''weather in st. louis''
      = Some (specWeatherCommand ''weather in st. louis'')"
    by blast
  moreover have "parseNaturalLanguage ''weather in st. louis'' = Some ''/weather st louis''"
    by code_simp
  moreover have "specWeatherCommand ''weather in st. louis'' = ''/weather st. louis''"
    by code_simp
  ultimately show False by simp
qed

section \<open>The dispatcher\<close>

text \<open>
  C3. For every command that starts with \<^verbatim>\<open>/weather\<close>, the city is the rest of the
  command, trimmed. When the city is empty, the dispatcher appends exactly one
  message, from the assistant, of type text, with the content
  \<^verbatim>\<open>Please provide a city.\<close> and no plugin fields, sends no request and ends the
  loading. When the city is not empty, the dispatcher sends one request, to
  \<^verbatim>\<open>https://api.openweathermap.org/data/2.5/weather?q=\<close> followed by the city,
  \<^verbatim>\<open>&units=metric&appid=f23af85998c654884e8ba4b7a555ebf0\<close> and a line break, and the
  reply follows the request: nothing while the request does not settle, the
  assistant text \<^verbatim>\<open>City not found or API error.\<close> when it is rejected or when the
  response has not the shape that is read, and otherwise one plugin message named
  \<^verbatim>\<open>weather\<close> that carries the response, whose content for a response with a
  description and a temperature is \<^verbatim>\<open>Weather in\<close> city\<^verbatim>\<open>:\<close> description\<^verbatim>\<open>,\<close> temperature
  \<^verbatim>\<open>\<degree>C\<close>. For the input \<^verbatim>\<open>/weather \<close> the callback takes the first of the two
  ways: behind the transcript without the placeholder comes
  \<^verbatim>\<open>Please provide a city.\<close>, and no request is sent.
\<close>

theorem C3_weather_city_guard:
  assumes "startsWith command ''/weather''"
  shows "(trim (drop 8 command) = [] \<longrightarrow>
            messages (dispatch env command st)
              = messages st @ [\<lparr> id' = uuidv4 env (created st), sender = Assistant,
                                 content = ''Please provide a city.'', type' = Text,
                                 pluginName = None, pluginData = Undefined,
                                 timestamp = now env (created st) \<rparr>]
            \<and> requests (dispatch env command st) = requests st
            \<and> loading (dispatch env command st) = False)
       \<and> (trim (drop 8 command) \<noteq> [] \<longrightarrow>
            requests (dispatch env command st)
              = requests st @ [''https://api.openweathermap.org/data/2.5/weather?q=''
                                @ trim (drop 8 command)
                                @ ''&units=metric&appid=f23af85998c654884e8ba4b7a555ebf0''
                                @ [CHR 0x0A]]
            \<and> (case axios_get env (length (requests st))
                       (''https://api.openweathermap.org/data/2.5/weather?q=''
                          @ trim (drop 8 command)
                          @ ''&units=metric&appid=f23af85998c654884e8ba4b7a555ebf0''
                          @ [CHR 0x0A]) of
                  Never \<Rightarrow> messages (dispatch env command st) = messages st
                | Throws \<Rightarrow>
                    messages (dispatch env command st)
                      = messages st @ [\<lparr> id' = uuidv4 env (created st), sender = Assistant,
                                         content = ''City not found or API error.'',
                                         type' = Text, pluginName = None,
                                         pluginData = Undefined,
                                         timestamp = now env (created st) \<rparr>]
                | Returns weather \<Rightarrow>
                    (case weatherContent (trim (drop 8 command)) weather of
                       None \<Rightarrow>
                         messages (dispatch env command st)
                           = messages st @ [\<lparr> id' = uuidv4 env (created st),
                                              sender = Assistant,
                                              content = ''City not found or API error.'',
                                              type' = Text, pluginName = None,
                                              pluginData = Undefined,
                                              timestamp = now env (created st) \<rparr>]
                     | Some content' \<Rightarrow>
                         messages (dispatch env command st)
                           = messages st @ [\<lparr> id' = uuidv4 env (created st),
                                              sender = Assistant, content = content',
                                              type' = Plugin, pluginName = Some ''weather'',
                                              pluginData = weather,
                                              timestamp = now env (created st) \<rparr>])))
       \<and> weatherContent city
            (Obj [(''weather'', Arr [Obj [(''description'', Str description)]]),
                  (''main'', Obj [(''temp'', Decimal temp)])])
          = Some (''Weather in '' @ city @ '': '' @ description @ '', '' @ temp
                    @ [CHR 0xB0] @ ''C'')
       \<and> messages (timeoutCallback env loadingMsg ''/weather '' st)
            = filter (\<lambda>msg. id' msg \<noteq> id' loadingMsg) (messages st)
              @ [\<lparr> id' = uuidv4 env (created st), sender = Assistant,
                   content = ''Please provide a city.'', type' = Text,
                   pluginName = None, pluginData = Undefined,
                   timestamp = now env (created st) \<rparr>]
       \<and> requests (timeoutCallback env loadingMsg ''/weather '' st) = requests st"
proof -
  have guard: "messages (dispatch env c s)
              = messages s @ [\<lparr> id' = uuidv4 env (created s), sender = Assistant,
                                content = ''Please provide a city.'', type' = Text,
                                pluginName = None, pluginData = Undefined,
                                timestamp = now env (created s) \<rparr>]
            \<and> requests (dispatch env c s) = requests s
            \<and> loading (dispatch env c s) = False"
    if "startsWith c ''/weather''" and "trim (drop 8 c) = []" for c s
    using that
    by (simp add: dispatch_def weatherHandler_def weather_city createMessage_def)
  have lookup: "requests (dispatch env command st)
              = requests st @ [''https://api.openweathermap.org/data/2.5/weather?q=''
                                @ trim (drop 8 command)
                                @ ''&units=metric&appid=f23af85998c654884e8ba4b7a555ebf0''
                                @ [CHR 0x0A]]"
    if "trim (drop 8 command) \<noteq> []"
    using that assms
    by (simp add: dispatch_def weatherHandler_def weather_city weatherUrl_def Let_def
             split: outcome.splits option.splits)
  have reply: "(case axios_get env (length (requests st))
                       (''https://api.openweathermap.org/data/2.5/weather?q=''
                          @ trim (drop 8 command)
                          @ ''&units=metric&appid=f23af85998c654884e8ba4b7a555ebf0''
                          @ [CHR 0x0A]) of
                  Never \<Rightarrow> messages (dispatch env command st) = messages st
                | Throws \<Rightarrow>
                    messages (dispatch env command st)
                      = messages st @ [\<lparr> id' = uuidv4 env (created st), sender = Assistant,
                                         content = ''City not found or API error.'',
                                         type' = Text, pluginName = None,
                                         pluginData = Undefined,
                                         timestamp = now env (created st) \<rparr>]
                | Returns weather \<Rightarrow>
                    (case weatherContent (trim (drop 8 command)) weather of
                       None \<Rightarrow>
                         messages (dispatch env command st)
                           = messages st @ [\<lparr> id' = uuidv4 env (created st),
                                              sender = Assistant,
                                              content = ''City not found or API error.'',
                                              type' = Text, pluginName = None,
                                              pluginData = Undefined,
                                              timestamp = now env (created st) \<rparr>]
                     | Some content' \<Rightarrow>
                         messages (dispatch env command st)
                           = messages st @ [\<lparr> id' = uuidv4 env (created st),
                                              sender = Assistant, content = content',
                                              type' = Plugin, pluginName = Some ''weather'',
                                              pluginData = weather,
                                              timestamp = now env (created st) \<rparr>]))"
    if "trim (drop 8 command) \<noteq> []"
    using that assms
    by (simp add: dispatch_def weatherHandler_def weather_city weatherUrl_def Let_def
             createMessage_def split: outcome.splits option.splits)
  have shape: "weatherContent city
            (Obj [(''weather'', Arr [Obj [(''description'', Str description)]]),
                  (''main'', Obj [(''temp'', Decimal temp)])])
          = Some (''Weather in '' @ city @ '': '' @ description @ '', '' @ temp
                    @ [CHR 0xB0] @ ''C'')"
    by (simp add: weatherContent_def getProp_def getIndex_def at_def)
  have trimmed: "trim ''/weather '' = ''/weather''"
    by code_simp
  have kept: "parseNaturalLanguage ''/weather'' = None"
    by code_simp
  have starts: "startsWith ''/weather'' ''/weather''" and empty: "trim (drop 8 ''/weather'') = []"
    by code_simp+
  have callback: "timeoutCallback env loadingMsg ''/weather '' st
      = dispatch env ''/weather''
          (setMessages (filter (\<lambda>msg. id' msg \<noteq> id' loadingMsg)) st)"
    by (simp add: timeoutCallback_def Let_def trimmed kept)
  from guard [OF assms, of st] lookup reply shape
    guard [OF starts empty, of "setMessages (filter (\<lambda>msg. id' msg \<noteq> id' loadingMsg)) st"]
  show ?thesis
    unfolding callback by simp
qed

theorem C3_weather_city_guard_witness:
  "startsWith ''/weather'' ''/weather''
   \<and> trim (drop 8 ''/weather'') = []
   \<and> messages (dispatch sampleEnv ''/weather'' sampleState)
       = [\<lparr> id' = ''u'', sender = Assistant, content = ''Please provide a city.'',
            type' = Text, pluginName = None, pluginData = Undefined,
            timestamp = ''2024-05-01T10:00:00.000Z'' \<rparr>]
   \<and> requests (dispatch sampleEnv ''/weather'' sampleState) = []
   \<and> startsWith ''/weather Paris'' ''/weather''
   \<and> trim (drop 8 ''/weather Paris'') = ''Paris''
   \<and> requests (dispatch weatherEnv ''/weather Paris'' sampleState)
       = [''https://api.openweathermap.org/data/2.5/weather?q=Paris&units=metric&appid=f23af85998c654884e8ba4b7a555ebf0''
            @ [CHR 0x0A]]
   \<and> messages (dispatch weatherEnv ''/weather Paris'' sampleState)
       = [\<lparr> id' = ''u'', sender = Assistant,
            content = ''Weather in Paris: clear sky, 21.5'' @ [CHR 0xB0] @ ''C'',
            type' = Plugin, pluginName = Some ''weather'', pluginData = parisWeather,
            timestamp = ''2024-05-01T10:00:00.000Z'' \<rparr>]
   \<and> messages (dispatch sampleEnv ''/weather Paris'' sampleState)
       = [\<lparr> id' = ''u'', sender = Assistant, content = ''City not found or API error.'',
            type' = Text, pluginName = None, pluginData = Undefined,
            timestamp = ''2024-05-01T10:00:00.000Z'' \<rparr>]"
proof -
  have a: "startsWith ''/weather'' ''/weather''" by code_simp
  have b: "trim (drop 8 ''/weather'') = []" by code_simp
  have c: "startsWith ''/weather Paris'' ''/weather''" by code_simp
  have d: "trim (drop 8 ''/weather Paris'') = ''Paris''" by code_simp
  have e: "messages sampleState = []" "requests sampleState = []" "created sampleState = 0"
    by (simp_all add: sampleState_def)
  have f: "uuidv4 sampleEnv 0 = ''u''" "now sampleEnv 0 = ''2024-05-01T10:00:00.000Z''"
    "uuidv4 weatherEnv 0 = ''u''" "now weatherEnv 0 = ''2024-05-01T10:00:00.000Z''"
    "axios_get sampleEnv n url = Throws" "axios_get weatherEnv n url = Returns parisWeather"
    for n url
    by (simp_all add: sampleEnv_def weatherEnv_def)
  have g: "weatherContent ''Paris'' parisWeather
      = Some (''Weather in Paris: clear sky, 21.5'' @ [CHR 0xB0] @ ''C'')"
    by code_simp
  from C3_weather_city_guard [OF a, of sampleEnv sampleState]
  have first: "messages (dispatch sampleEnv ''/weather'' sampleState)
       = [\<lparr> id' = ''u'', sender = Assistant, content = ''Please provide a city.'',
            type' = Text, pluginName = None, pluginData = Undefined,
            timestamp = ''2024-05-01T10:00:00.000Z'' \<rparr>]
     \<and> requests (dispatch sampleEnv ''/weather'' sampleState) = []"
    using b e f by simp
  from C3_weather_city_guard [OF c, of weatherEnv sampleState]
  have second: "requests (dispatch weatherEnv ''/weather Paris'' sampleState)
       = [''https://api.openweathermap.org/data/2.5/weather?q=Paris&units=metric&appid=f23af85998c654884e8ba4b7a555ebf0''
            @ [CHR 0x0A]]
     \<and> messages (dispatch weatherEnv ''/weather Paris'' sampleState)
       = [\<lparr> id' = ''u'', sender = Assistant,
            content = ''Weather in Paris: clear sky, 21.5'' @ [CHR 0xB0] @ ''C'',
            type' = Plugin, pluginName = Some ''weather'', pluginData = parisWeather,
            timestamp = ''2024-05-01T10:00:00.000Z'' \<rparr>]"
    using d e f g by simp
  from C3_weather_city_guard [OF c, of sampleEnv sampleState]
  have third: "messages (dispatch sampleEnv ''/weather Paris'' sampleState)
       = [\<lparr> id' = ''u'', sender = Assistant, content = ''City not found or API error.'',
            type' = Text, pluginName = None, pluginData = Undefined,
            timestamp = ''2024-05-01T10:00:00.000Z'' \<rparr>]"
    using d e f by simp
  from a b c d first second third show ?thesis by simp
qed

text \<open>
  C9. A command that starts with none of \<^verbatim>\<open>/weather\<close>, \<^verbatim>\<open>/calc\<close> and \<^verbatim>\<open>/define\<close> gets
  exactly one message, from the assistant, of type text, with the content
  \<^verbatim>\<open>Unrecognized command.\<close> and no plugin fields; nothing is requested or evaluated,
  and the loading ends. So does an input that the rewriter leaves as it is and
  that starts, once trimmed, with none of the three, whereas an input that the
  rewriter turns into a command, as \<^verbatim>\<open>calculate 7\<close>, gets the answer to that command.
  The handler is chosen by the
  prefix alone: \<^verbatim>\<open>/calculator\<close> is not rewritten, it starts with \<^verbatim>\<open>/calc\<close>, the
  calculator handler runs on it and evaluates \<^verbatim>\<open>ulator\<close>, and the reply is the
  calculator's: nothing while the evaluation does not return, the text
  \<^verbatim>\<open>Invalid expression\<close> when it throws, and otherwise the plugin message
  \<^verbatim>\<open>Result:\<close> with the value.
\<close>

theorem C9_unrecognized_and_prefix:
  "(\<not> startsWith command ''/weather'' \<and> \<not> startsWith command ''/calc''
      \<and> \<not> startsWith command ''/define'' \<longrightarrow>
      messages (dispatch env command st)
        = messages st @ [\<lparr> id' = uuidv4 env (created st), sender = Assistant,
                           content = ''Unrecognized command.'', type' = Text,
                           pluginName = None, pluginData = Undefined,
                           timestamp = now env (created st) \<rparr>]
      \<and> requests (dispatch env command st) = requests st
      \<and> evaluated (dispatch env command st) = evaluated st
      \<and> loading (dispatch env command st) = False)
   \<and> (parseNaturalLanguage (trim input') = None \<and> \<not> startsWith (trim input') ''/weather''
        \<and> \<not> startsWith (trim input') ''/calc'' \<and> \<not> startsWith (trim input') ''/define'' \<longrightarrow>
      messages (timeoutCallback env loadingMsg input' st)
        = filter (\<lambda>msg. id' msg \<noteq> id' loadingMsg) (messages st)
          @ [\<lparr> id' = uuidv4 env (created st), sender = Assistant,
               content = ''Unrecognized command.'', type' = Text,
               pluginName = None, pluginData = Undefined,
               timestamp = now env (created st) \<rparr>])
   \<and> parseNaturalLanguage ''calculate 7'' = Some ''/calc 7''
   \<and> messages (timeoutCallback env loadingMsg ''calculate 7'' st)
        = filter (\<lambda>msg. id' msg \<noteq> id' loadingMsg) (messages st)
          @ [\<lparr> id' = uuidv4 env (created st), sender = Assistant,
               content = ''Result: 7'', type' = Plugin,
               pluginName = Some ''calc'', pluginData = Num 7,
               timestamp = now env (created st) \<rparr>]
   \<and> parseNaturalLanguage ''/calculator'' = None
   \<and> startsWith ''/calculator'' ''/calc''
   \<and> dispatch env ''/calculator'' st = calcHandler env ''/calculator'' st
   \<and> evaluated (dispatch env ''/calculator'' st) = evaluated st @ [''ulator'']
   \<and> (case evalOther env (length (evaluated st)) ''ulator'' of
         Never \<Rightarrow> messages (dispatch env ''/calculator'' st) = messages st
       | Throws \<Rightarrow>
           messages (dispatch env ''/calculator'' st)
             = messages st @ [\<lparr> id' = uuidv4 env (created st), sender = Assistant,
                                content = ''Invalid expression'', type' = Text,
                                pluginName = None, pluginData = Undefined,
                                timestamp = now env (created st) \<rparr>]
       | Returns result \<Rightarrow>
           (case toString result of
              None \<Rightarrow>
                messages (dispatch env ''/calculator'' st)
                  = messages st @ [\<lparr> id' = uuidv4 env (created st), sender = Assistant,
                                     content = ''Invalid expression'', type' = Text,
                                     pluginName = None, pluginData = Undefined,
                                     timestamp = now env (created st) \<rparr>]
            | Some shown \<Rightarrow>
                messages (dispatch env ''/calculator'' st)
                  = messages st @ [\<lparr> id' = uuidv4 env (created st), sender = Assistant,
                                     content = ''Result: '' @ shown, type' = Plugin,
                                     pluginName = Some ''calc'', pluginData = result,
                                     timestamp = now env (created st) \<rparr>]))"
proof -
  have none: "parseNaturalLanguage ''/calculator'' = None"
    by code_simp
  have w: "\<not> startsWith ''/calculator'' ''/weather''" and c: "startsWith ''/calculator'' ''/calc''"
    by code_simp+
  have rest: "trim (replaceFirst ''/calculator'' ''/calc'' []) = ''ulator''"
    by code_simp
  have "arithmetic ''ulator'' = None"
    by code_simp
  then have ev: "evaluate env n ''ulator'' = evalOther env n ''ulator''" for n
    by (simp add: evaluate_def)
  have calc: "dispatch env ''/calculator'' st = calcHandler env ''/calculator'' st"
    by (simp add: dispatch_def w c)
  have log: "evaluated (calcHandler env ''/calculator'' st) = evaluated st @ [''ulator'']"
    by (simp add: calcHandler_def rest Let_def split: outcome.splits option.splits)
  have msg: "(case evalOther env (length (evaluated st)) ''ulator'' of
         Never \<Rightarrow> messages (calcHandler env ''/calculator'' st) = messages st
       | Throws \<Rightarrow>
           messages (calcHandler env ''/calculator'' st)
             = messages st @ [\<lparr> id' = uuidv4 env (created st), sender = Assistant,
                                content = ''Invalid expression'', type' = Text,
                                pluginName = None, pluginData = Undefined,
                                timestamp = now env (created st) \<rparr>]
       | Returns result \<Rightarrow>
           (case toString result of
              None \<Rightarrow>
                messages (calcHandler env ''/calculator'' st)
                  = messages st @ [\<lparr> id' = uuidv4 env (created st), sender = Assistant,
                                     content = ''Invalid expression'', type' = Text,
                                     pluginName = None, pluginData = Undefined,
                                     timestamp = now env (created st) \<rparr>]
            | Some shown \<Rightarrow>
                messages (calcHandler env ''/calculator'' st)
                  = messages st @ [\<lparr> id' = uuidv4 env (created st), sender = Assistant,
                                     content = ''Result: '' @ shown, type' = Plugin,
                                     pluginName = Some ''calc'', pluginData = result,
                                     timestamp = now env (created st) \<rparr>]))"
    by (simp add: calcHandler_def rest ev Let_def calcContent_def createMessage_def
             split: outcome.splits option.splits)
  have other: "messages (dispatch env c s)
        = messages s @ [\<lparr> id' = uuidv4 env (created s), sender = Assistant,
                           content = ''Unrecognized command.'', type' = Text,
                           pluginName = None, pluginData = Undefined,
                           timestamp = now env (created s) \<rparr>]
      \<and> requests (dispatch env c s) = requests s
      \<and> evaluated (dispatch env c s) = evaluated s
      \<and> loading (dispatch env c s) = False"
    if "\<not> startsWith c ''/weather''" "\<not> startsWith c ''/calc''" "\<not> startsWith c ''/define''"
    for c s
    using that by (simp add: dispatch_def createMessage_def)
  have callback: "messages (timeoutCallback env loadingMsg input' st)
        = filter (\<lambda>msg. id' msg \<noteq> id' loadingMsg) (messages st)
          @ [\<lparr> id' = uuidv4 env (created st), sender = Assistant,
               content = ''Unrecognized command.'', type' = Text,
               pluginName = None, pluginData = Undefined,
               timestamp = now env (created st) \<rparr>]"
    if "parseNaturalLanguage (trim input') = None" "\<not> startsWith (trim input') ''/weather''"
      "\<not> startsWith (trim input') ''/calc''" "\<not> startsWith (trim input') ''/define''"
    using that
      other [OF that(2-4), of "setMessages (filter (\<lambda>msg. id' msg \<noteq> id' loadingMsg)) st"]
    by (simp add: timeoutCallback_def Let_def)
  have rewritten: "parseNaturalLanguage ''calculate 7'' = Some ''/calc 7''"
    by code_simp
  have seven: "trim ''calculate 7'' = ''calculate 7''" "startsWith ''/calc 7'' ''/calc''"
    "\<not> startsWith ''/calc 7'' ''/weather''"
    "trim (replaceFirst ''/calc 7'' ''/calc'' []) = ''7''" "arithmetic ''7'' = Some 7"
    "calcContent (Num 7) = Some ''Result: 7''"
    by code_simp+
  have counted: "messages (timeoutCallback env loadingMsg ''calculate 7'' st)
        = filter (\<lambda>msg. id' msg \<noteq> id' loadingMsg) (messages st)
          @ [\<lparr> id' = uuidv4 env (created st), sender = Assistant,
               content = ''Result: 7'', type' = Plugin,
               pluginName = Some ''calc'', pluginData = Num 7,
               timestamp = now env (created st) \<rparr>]"
    by (simp add: timeoutCallback_def Let_def rewritten seven dispatch_def calcHandler_def
          evaluate_def createMessage_def)
  from none c log msg other [of command st] callback rewritten counted show ?thesis
    unfolding calc by blast
qed

theorem C9_unrecognized_and_prefix_witness:
  "\<not> startsWith ''/calendar'' ''/weather'' \<and> \<not> startsWith ''/calendar'' ''/calc''
   \<and> \<not> startsWith ''/calendar'' ''/define''
   \<and> messages (dispatch sampleEnv ''/calendar'' sampleState)
       = [\<lparr> id' = ''u'', sender = Assistant, content = ''Unrecognized command.'',
            type' = Text, pluginName = None, pluginData = Undefined,
            timestamp = ''2024-05-01T10:00:00.000Z'' \<rparr>]
   \<and> parseNaturalLanguage (trim '' hello '') = None
   \<and> \<not> startsWith (trim '' hello '') ''/weather'' \<and> \<not> startsWith (trim '' hello '') ''/calc''
   \<and> \<not> startsWith (trim '' hello '') ''/define''
   \<and> messages (timeoutCallback sampleEnv
         \<lparr> id' = ''t'', sender = Assistant, content = ''Typing...'', type' = Text,
           pluginName = None, pluginData = Undefined, timestamp = [] \<rparr> '' hello '' sampleState)
       = [\<lparr> id' = ''u'', sender = Assistant, content = ''Unrecognized command.'',
            type' = Text, pluginName = None, pluginData = Undefined,
            timestamp = ''2024-05-01T10:00:00.000Z'' \<rparr>]
   \<and> evaluated (dispatch sampleEnv ''/calculator'' sampleState) = [''ulator'']
   \<and> messages (dispatch sampleEnv ''/calculator'' sampleState)
       = [\<lparr> id' = ''u'', sender = Assistant, content = ''Invalid expression'',
            type' = Text, pluginName = None, pluginData = Undefined,
            timestamp = ''2024-05-01T10:00:00.000Z'' \<rparr>]"
proof -
  have a: "\<not> startsWith ''/calendar'' ''/weather''" "\<not> startsWith ''/calendar'' ''/calc''"
    "\<not> startsWith ''/calendar'' ''/define''"
    by code_simp+
  have b: "parseNaturalLanguage (trim '' hello '') = None"
    "\<not> startsWith (trim '' hello '') ''/weather''" "\<not> startsWith (trim '' hello '') ''/calc''"
    "\<not> startsWith (trim '' hello '') ''/define''"
    by code_simp+
  have e: "messages sampleState = []" "evaluated sampleState = []" "created sampleState = 0"
    by (simp_all add: sampleState_def)
  have f: "uuidv4 sampleEnv 0 = ''u''" "now sampleEnv 0 = ''2024-05-01T10:00:00.000Z''"
    "evalOther sampleEnv n x = Throws" for n x
    by (simp_all add: sampleEnv_def)
  note c9 = C9_unrecognized_and_prefix [of _ sampleEnv sampleState]
  from c9 [of "''/calendar''"] a
  have first: "messages (dispatch sampleEnv ''/calendar'' sampleState)
      = messages sampleState
        @ [\<lparr> id' = uuidv4 sampleEnv (created sampleState), sender = Assistant,
             content = ''Unrecognized command.'', type' = Text,
             pluginName = None, pluginData = Undefined,
             timestamp = now sampleEnv (created sampleState) \<rparr>]"
    by blast
  from c9 [of "''/calendar''" "'' hello ''"] b
  have second: "messages (timeoutCallback sampleEnv
         \<lparr> id' = ''t'', sender = Assistant, content = ''Typing...'', type' = Text,
           pluginName = None, pluginData = Undefined, timestamp = [] \<rparr> '' hello '' sampleState)
      = filter (\<lambda>msg. id' msg \<noteq> id' \<lparr> id' = ''t'', sender = Assistant, content = ''Typing...'', type' = Text,
           pluginName = None, pluginData = Undefined, timestamp = [] \<rparr>) (messages sampleState)
          @ [\<lparr> id' = uuidv4 sampleEnv (created sampleState), sender = Assistant,
               content = ''Unrecognized command.'', type' = Text,
               pluginName = None, pluginData = Undefined,
               timestamp = now sampleEnv (created sampleState) \<rparr>]"
    by blast
  from c9 [of "''/calendar''"]
  have third: "evaluated (dispatch sampleEnv ''/calculator'' sampleState)
      = evaluated sampleState @ [''ulator'']"
    by blast
  from c9 [of "''/calendar''"]
  have "(case evalOther sampleEnv (length (evaluated sampleState)) ''ulator'' of
         Never \<Rightarrow> messages (dispatch sampleEnv ''/calculator'' sampleState) = messages sampleState
       | Throws \<Rightarrow>
           messages (dispatch sampleEnv ''/calculator'' sampleState)
             = messages sampleState @ [\<lparr> id' = uuidv4 sampleEnv (created sampleState), sender = Assistant,
                                content = ''Invalid expression'', type' = Text,
                                pluginName = None, pluginData = Undefined,
                                timestamp = now sampleEnv (created sampleState) \<rparr>]
       | Returns result \<Rightarrow>
           (case toString result of
              None \<Rightarrow>
                messages (dispatch sampleEnv ''/calculator'' sampleState)
                  = messages sampleState @ [\<lparr> id' = uuidv4 sampleEnv (created sampleState), sender = Assistant,
                                     content = ''Invalid expression'', type' = Text,
                                     pluginName = None, pluginData = Undefined,
                                     timestamp = now sampleEnv (created sampleState) \<rparr>]
            | Some shown \<Rightarrow>
                messages (dispatch sampleEnv ''/calculator'' sampleState)
                  = messages sampleState @ [\<lparr> id' = uuidv4 sampleEnv (created sampleState), sender = Assistant,
                                     content = ''Result: '' @ shown, type' = Plugin,
                                     pluginName = Some ''calc'', pluginData = result,
                                     timestamp = now sampleEnv (created sampleState) \<rparr>]))"
    by blast
  then have fourth: "messages (dispatch sampleEnv ''/calculator'' sampleState)
       = [\<lparr> id' = ''u'', sender = Assistant, content = ''Invalid expression'',
            type' = Text, pluginName = None, pluginData = Undefined,
            timestamp = ''2024-05-01T10:00:00.000Z'' \<rparr>]"
    by (simp add: e f)
  from a b first second third fourth show ?thesis
    by (simp add: e f)
qed

section \<open>Submitting\<close>

text \<open>
  C10. When the input is empty after trimming, \<^verbatim>\<open>handleSend\<close> returns at once: the
  state (the transcript, the input, the loading flag, the storage slot, the logs) is
  the one before, and no callback is scheduled.
\<close>

theorem C10_blank_input_is_noop:
  assumes "trim (input st) = []"
  shows "handleSend env st = (st, None) \<and> submit env st = st"
  using assms by (simp add: handleSend_def submit_def)

theorem C10_blank_input_is_noop_witness:
  "trim (input (sampleState\<lparr> input := [CHR '' '', CHR 0x09, CHR '' ''] \<rparr>)) = []
   \<and> handleSend sampleEnv (sampleState\<lparr> input := [CHR '' '', CHR 0x09, CHR '' ''] \<rparr>)
       = (sampleState\<lparr> input := [CHR '' '', CHR 0x09, CHR '' ''] \<rparr>, None)
   \<and> submit sampleEnv (sampleState\<lparr> input := [CHR '' '', CHR 0x09, CHR '' ''] \<rparr>)
       = sampleState\<lparr> input := [CHR '' '', CHR 0x09, CHR '' ''] \<rparr>"
proof -
  have "trim [CHR '' '', CHR 0x09, CHR '' ''] = []"
    by code_simp
  then have h: "trim (input (sampleState\<lparr> input := [CHR '' '', CHR 0x09, CHR '' ''] \<rparr>)) = []"
    by simp
  from h C10_blank_input_is_noop [OF h, of sampleEnv] show ?thesis by simp
qed

section \<open>One submission\<close>




section \<open>The invariant\<close>

lemma environmentOk_D:
  assumes "environmentOk env st"
  shows "created st \<le> j \<Longrightarrow> j < k \<Longrightarrow> uuidv4 env j \<noteq> uuidv4 env k"
    and "created st \<le> k \<Longrightarrow> m \<in> set (messages st) \<Longrightarrow> id' m \<noteq> uuidv4 env k"
    and "created st \<le> j \<Longrightarrow> j \<le> k \<Longrightarrow> now env j \<le> now env k"
    and "created st \<le> k \<Longrightarrow> m \<in> set (messages st) \<Longrightarrow> timestamp m \<le> now env k"
  using assms unfolding environmentOk_def by blast+

lemma invariant_append:
  assumes inv: "transcriptInvariant (messages st)" and env: "environmentOk env st"
    and plugin: "t = Text \<longrightarrow> pn = None \<and> pd = Undefined"
  shows "transcriptInvariant (messages st @ [createMessage env (created st) s c t pn pd])"
proof -
  have fresh: "\<forall>m \<in> set (messages st). id' m \<noteq> uuidv4 env (created st)"
    using environmentOk_D(2) [OF env] by simp
  have later: "\<forall>m \<in> set (messages st). timestamp m \<le> now env (created st)"
    using environmentOk_D(4) [OF env] by simp
  have "uniqueIds (messages st @ [createMessage env (created st) s c t pn pd])"
    using inv fresh by (auto simp: transcriptInvariant_def uniqueIds_def)
  moreover have "timestampsOrdered (messages st @ [createMessage env (created st) s c t pn pd])"
    using inv later by (simp add: transcriptInvariant_def timestampsOrdered_def sorted_append)
  moreover have "pluginFieldsOnPluginOnly (messages st @ [createMessage env (created st) s c t pn pd])"
    using inv plugin by (simp add: transcriptInvariant_def pluginFieldsOnPluginOnly_def)
  ultimately show ?thesis
    by (simp add: transcriptInvariant_def)
qed

lemma environment_append:
  assumes env: "environmentOk env st"
    and ms: "messages st' = messages st @ [createMessage env (created st) s c t pn pd]"
    and cr: "created st' = Suc (created st)"
  shows "environmentOk env st'"
  unfolding environmentOk_def
proof (intro conjI allI impI)
  fix j k assume "created st' \<le> j \<and> j < k"
  with cr show "uuidv4 env j \<noteq> uuidv4 env k"
    by (intro environmentOk_D(1) [OF env]) simp_all
next
  fix k m assume a: "created st' \<le> k \<and> m \<in> set (messages st')"
  show "id' m \<noteq> uuidv4 env k"
  proof (cases "m \<in> set (messages st)")
    case True
    with a cr show ?thesis by (intro environmentOk_D(2) [OF env]) simp_all
  next
    case False
    with a ms have "id' m = uuidv4 env (created st)" by auto
    moreover from a cr have "uuidv4 env (created st) \<noteq> uuidv4 env k"
      by (intro environmentOk_D(1) [OF env]) simp_all
    ultimately show ?thesis by simp
  qed
next
  fix j k assume "created st' \<le> j \<and> j \<le> k"
  with cr show "now env j \<le> now env k"
    by (intro environmentOk_D(3) [OF env]) simp_all
next
  fix k m assume a: "created st' \<le> k \<and> m \<in> set (messages st')"
  show "timestamp m \<le> now env k"
  proof (cases "m \<in> set (messages st)")
    case True
    with a cr show ?thesis by (intro environmentOk_D(4) [OF env]) simp_all
  next
    case False
    with a ms have "timestamp m = now env (created st)" by auto
    moreover from a cr have "now env (created st) \<le> now env k"
      by (intro environmentOk_D(3) [OF env]) simp_all
    ultimately show ?thesis by simp
  qed
qed

lemma invariant_filter:
  assumes "transcriptInvariant ms"
  shows "transcriptInvariant (filter P ms)"
proof -
  have "uniqueIds (filter P ms)"
    using assms by (simp add: transcriptInvariant_def uniqueIds_def distinct_map_filter)
  moreover have "timestampsOrdered (filter P ms)"
    using assms by (simp add: transcriptInvariant_def timestampsOrdered_def sorted_map sorted_wrt_filter)
  moreover have "pluginFieldsOnPluginOnly (filter P ms)"
    using assms by (simp add: transcriptInvariant_def pluginFieldsOnPluginOnly_def)
  ultimately show ?thesis
    by (simp add: transcriptInvariant_def)
qed

lemma environment_subset:
  assumes env: "environmentOk env st" and sub: "set (messages st') \<subseteq> set (messages st)"
    and cr: "created st' = created st"
  shows "environmentOk env st'"
  unfolding environmentOk_def
proof (intro conjI allI impI)
  fix j k assume "created st' \<le> j \<and> j < k"
  with cr show "uuidv4 env j \<noteq> uuidv4 env k"
    by (intro environmentOk_D(1) [OF env]) simp_all
next
  fix k m assume "created st' \<le> k \<and> m \<in> set (messages st')"
  with cr sub show "id' m \<noteq> uuidv4 env k"
    by (intro environmentOk_D(2) [OF env]) auto
next
  fix j k assume "created st' \<le> j \<and> j \<le> k"
  with cr show "now env j \<le> now env k"
    by (intro environmentOk_D(3) [OF env]) simp_all
next
  fix k m assume "created st' \<le> k \<and> m \<in> set (messages st')"
  with cr sub show "timestamp m \<le> now env k"
    by (intro environmentOk_D(4) [OF env]) auto
qed

text \<open>The states the component passes through: the invariant holds of the
  transcript and the environment is as the invariant needs it.\<close>

lemma good_append:
  assumes "transcriptInvariant (messages st) \<and> environmentOk env st"
    and "messages st' = messages st @ [createMessage env (created st) s c t pn pd]"
    and "created st' = Suc (created st)"
    and "t = Text \<longrightarrow> pn = None \<and> pd = Undefined"
  shows "transcriptInvariant (messages st') \<and> environmentOk env st'"
  using assms invariant_append [of st env t pn pd s c] environment_append [of env st st' s c t pn pd]
  by simp

lemma good_dispatch:
  assumes "transcriptInvariant (messages st) \<and> environmentOk env st"
  shows "transcriptInvariant (messages (dispatch env command st))
       \<and> environmentOk env (dispatch env command st)"
proof -
  consider "messages (dispatch env command st) = messages st"
      "created (dispatch env command st) = created st"
    | "replied env st (dispatch env command st)"
    using dispatch_replies [of env st command] by blast
  then show ?thesis
  proof cases
    case 1
    with assms environment_subset [of env st "dispatch env command st"] show ?thesis
      by simp
  next
    case 2
    then obtain c t pn pd where
      "messages (dispatch env command st)
         = messages st @ [createMessage env (created st) Assistant c t pn pd]"
      and "created (dispatch env command st) = Suc (created st)"
      and "t = Text \<longrightarrow> pn = None \<and> pd = Undefined"
      unfolding replied_def by blast
    with assms show ?thesis
      by (rule good_append)
  qed
qed

lemma plugin_append:
  assumes "pluginFieldsOnPluginOnly ms" and "t = Text \<longrightarrow> pn = None \<and> pd = Undefined"
  shows "pluginFieldsOnPluginOnly (ms @ [createMessage env k s c t pn pd])"
  using assms by (simp add: pluginFieldsOnPluginOnly_def)

lemma plugin_filter: "pluginFieldsOnPluginOnly ms \<Longrightarrow> pluginFieldsOnPluginOnly (filter P ms)"
  by (simp add: pluginFieldsOnPluginOnly_def)

lemma plugin_dispatch:
  assumes "pluginFieldsOnPluginOnly (messages st)"
  shows "pluginFieldsOnPluginOnly (messages (dispatch env command st))"
proof -
  consider "messages (dispatch env command st) = messages st"
    | "replied env st (dispatch env command st)"
    using dispatch_replies [of env st command] by blast
  then show ?thesis
  proof cases
    case 1
    with assms show ?thesis by simp
  next
    case 2
    then obtain c t pn pd where
      "messages (dispatch env command st)
         = messages st @ [createMessage env (created st) Assistant c t pn pd]"
      and "t = Text \<longrightarrow> pn = None \<and> pd = Undefined"
      unfolding replied_def by blast
    with assms show ?thesis
      by (simp add: plugin_append)
  qed
qed

text \<open>
  C8, as the code has it. The two steps of the component that change the
  transcript are \<^verbatim>\<open>handleSend\<close> and the callback it schedules (for any placeholder
  and any captured input). In every environment both keep the part of the invariant
  that is the component's own: a message of type \<^verbatim>\<open>text\<close> has neither \<^verbatim>\<open>pluginName\<close>
  nor \<^verbatim>\<open>pluginData\<close>. The ids and the timestamps come from \<^verbatim>\<open>uuidv4\<close> and from the
  clock: when the ids still to be drawn differ from one another and from the ids in
  the transcript, and the clock runs neither backwards nor behind a timestamp in
  the transcript, both steps keep the whole invariant (ids unique in the sequence,
  timestamps that do not decrease along it, plugin fields on plugin messages only)
  and leave the environment so.
\<close>

theorem C8_invariant_preserved:
  "(pluginFieldsOnPluginOnly (messages st) \<longrightarrow>
      pluginFieldsOnPluginOnly (messages (fst (handleSend env st)))
      \<and> pluginFieldsOnPluginOnly (messages (timeoutCallback env loadingMsg input' st)))
   \<and> (transcriptInvariant (messages st) \<and> environmentOk env st \<longrightarrow>
      transcriptInvariant (messages (fst (handleSend env st)))
      \<and> environmentOk env (fst (handleSend env st))
      \<and> transcriptInvariant (messages (timeoutCallback env loadingMsg input' st))
      \<and> environmentOk env (timeoutCallback env loadingMsg input' st))"
proof -
  have own: "pluginFieldsOnPluginOnly (messages (fst (handleSend env st)))
      \<and> pluginFieldsOnPluginOnly (messages (timeoutCallback env loadingMsg input' st))"
    if plugin: "pluginFieldsOnPluginOnly (messages st)"
  proof -
    have "pluginFieldsOnPluginOnly (messages (fst (handleSend env st)))"
      using plugin by (simp add: handleSend_def Let_def pluginFieldsOnPluginOnly_def)
    moreover have "pluginFieldsOnPluginOnly (messages (timeoutCallback env loadingMsg input' st))"
      using plugin by (simp add: timeoutCallback_def Let_def plugin_dispatch plugin_filter)
    ultimately show ?thesis by simp
  qed
  have whole: "transcriptInvariant (messages (fst (handleSend env st)))
       \<and> environmentOk env (fst (handleSend env st))
       \<and> transcriptInvariant (messages (timeoutCallback env loadingMsg input' st))
       \<and> environmentOk env (timeoutCallback env loadingMsg input' st)"
    if good: "transcriptInvariant (messages st) \<and> environmentOk env st"
  proof -
    have send: "transcriptInvariant (messages (fst (handleSend env st)))
         \<and> environmentOk env (fst (handleSend env st))"
    proof (cases "trim (input st) = []")
      case True
      with good show ?thesis by (simp add: handleSend_def)
    next
      case False
      define st2 where
        "st2 = setLoading True ((appendMessage env User (input st) Text None Undefined st)\<lparr> input := [] \<rparr>)"
      have "transcriptInvariant (messages st2) \<and> environmentOk env st2"
        using good
        by (rule good_append [where s = User and c = "input st" and t = Text and pn = None
                and pd = Undefined])
          (simp_all add: st2_def)
      then have "transcriptInvariant (messages (fst (handleSend env st)))
         \<and> environmentOk env (fst (handleSend env st))"
        by (rule good_append [where s = Assistant and c = "''Typing...''" and t = Text
                and pn = None and pd = Undefined])
          (simp_all add: handleSend_def False Let_def st2_def)
      then show ?thesis .
    qed
    define st1 where "st1 = setMessages (filter (\<lambda>msg. id' msg \<noteq> id' loadingMsg)) st"
    have "transcriptInvariant (messages st1)"
      using good by (simp add: st1_def invariant_filter)
    moreover have "environmentOk env st1"
      using good environment_subset [of env st st1] by (simp add: st1_def)
    ultimately have "transcriptInvariant (messages (dispatch env command st1))
         \<and> environmentOk env (dispatch env command st1)" for command
      by (intro good_dispatch) simp
    then have "transcriptInvariant (messages (timeoutCallback env loadingMsg input' st))
         \<and> environmentOk env (timeoutCallback env loadingMsg input' st)"
      by (simp add: timeoutCallback_def Let_def st1_def)
    with send show ?thesis by simp
  qed
  from own whole show ?thesis by blast
qed

theorem C8_invariant_preserved_witness:
  "transcriptInvariant (messages (sampleState\<lparr> input := ''hello'' \<rparr>))
   \<and> pluginFieldsOnPluginOnly (messages (sampleState\<lparr> input := ''hello'' \<rparr>))
   \<and> environmentOk sampleEnv (sampleState\<lparr> input := ''hello'' \<rparr>)
   \<and> map id' (messages (fst (handleSend sampleEnv (sampleState\<lparr> input := ''hello'' \<rparr>))))
       = [''u'', ''uu'']
   \<and> transcriptInvariant (messages (fst (handleSend sampleEnv (sampleState\<lparr> input := ''hello'' \<rparr>))))
   \<and> environmentOk sampleEnv (fst (handleSend sampleEnv (sampleState\<lparr> input := ''hello'' \<rparr>)))
   \<and> pluginFieldsOnPluginOnly
        (messages (fst (handleSend repeatingEnv (sampleState\<lparr> input := ''hello'' \<rparr>))))"
proof -
  let ?st = "sampleState\<lparr> input := ''hello'' \<rparr>"
  have h0: "pluginFieldsOnPluginOnly (messages ?st)"
    by (simp add: sampleState_def pluginFieldsOnPluginOnly_def)
  have h1: "transcriptInvariant (messages ?st)"
    by (simp add: sampleState_def transcriptInvariant_def uniqueIds_def timestampsOrdered_def
          pluginFieldsOnPluginOnly_def)
  have h2: "environmentOk sampleEnv ?st"
    by (simp add: environmentOk_def sampleState_def sampleEnv_def)
  have ids: "map id' (messages (fst (handleSend sampleEnv ?st))) = [''u'', ''uu'']"
    by code_simp
  from C8_invariant_preserved [of ?st sampleEnv] h1 h2
  have whole: "transcriptInvariant (messages (fst (handleSend sampleEnv ?st)))
       \<and> environmentOk sampleEnv (fst (handleSend sampleEnv ?st))"
    by blast
  from C8_invariant_preserved [of ?st repeatingEnv] h0
  have own: "pluginFieldsOnPluginOnly (messages (fst (handleSend repeatingEnv ?st)))"
    by blast
  from h0 h1 h2 ids whole own show ?thesis
    by simp
qed

text \<open>
  C8 as the claim states it, for every operation whatever \<^verbatim>\<open>uuidv4\<close> and the clock
  give, does not hold: nothing in the component compares ids or timestamps. When
  \<^verbatim>\<open>uuidv4\<close> draws an id twice, \<^verbatim>\<open>handleSend\<close> on the empty transcript puts two
  messages with that id into it; when the clock is set back between the two
  messages, the second timestamp is earlier than the first.
\<close>

theorem C8_environment_counterexample:
  "transcriptInvariant (messages (sampleState\<lparr> input := ''hello'' \<rparr>))
   \<and> map id' (messages (fst (handleSend repeatingEnv (sampleState\<lparr> input := ''hello'' \<rparr>))))
       = [''u'', ''u'']
   \<and> \<not> uniqueIds (messages (fst (handleSend repeatingEnv (sampleState\<lparr> input := ''hello'' \<rparr>))))
   \<and> \<not> transcriptInvariant
          (messages (fst (handleSend repeatingEnv (sampleState\<lparr> input := ''hello'' \<rparr>))))
   \<and> map timestamp (messages (fst (handleSend backwardEnv (sampleState\<lparr> input := ''hello'' \<rparr>))))
       = [''2024-05-01T10:00:01.000Z'', ''2024-05-01T10:00:00.000Z'']
   \<and> \<not> timestampsOrdered
          (messages (fst (handleSend backwardEnv (sampleState\<lparr> input := ''hello'' \<rparr>))))
   \<and> \<not> transcriptInvariant
          (messages (fst (handleSend backwardEnv (sampleState\<lparr> input := ''hello'' \<rparr>))))"
proof -
  let ?st = "sampleState\<lparr> input := ''hello'' \<rparr>"
  have start: "transcriptInvariant (messages ?st)"
    by (simp add: sampleState_def transcriptInvariant_def uniqueIds_def timestampsOrdered_def
          pluginFieldsOnPluginOnly_def)
  have ids: "map id' (messages (fst (handleSend repeatingEnv ?st))) = [''u'', ''u'']"
    by code_simp
  have times: "map timestamp (messages (fst (handleSend backwardEnv ?st)))
       = [''2024-05-01T10:00:01.000Z'', ''2024-05-01T10:00:00.000Z'']"
    by code_simp
  have "\<not> ''2024-05-01T10:00:01.000Z'' \<le> ''2024-05-01T10:00:00.000Z''"
    by code_simp
  with times have unordered: "\<not> timestampsOrdered (messages (fst (handleSend backwardEnv ?st)))"
    by (simp add: timestampsOrdered_def)
  from ids have repeated: "\<not> uniqueIds (messages (fst (handleSend repeatingEnv ?st)))"
    by (simp add: uniqueIds_def)
  from start ids times repeated unordered show ?thesis
    by (simp add: transcriptInvariant_def)
qed

section \<open>The dictionary handler\<close>

text \<open>
  C6, at a response the code does not treat as the claim says. The request succeeds
  with the array \<^verbatim>\<open>[{}]\<close>, whose first entry has no \<^verbatim>\<open>meanings\<close>: the definition is
  structurally absent, yet reading \<^verbatim>\<open>[0]\<close> of the missing \<^verbatim>\<open>meanings\<close> throws, and the
  handler answers \<^verbatim>\<open>Error fetching definition\<close> although the lookup did not fail. For
  the empty array \<^verbatim>\<open>[]\<close> the first \<^verbatim>\<open>?.\<close> ends the chain and the content defaults to
  \<^verbatim>\<open>Definition not found\<close>.
\<close>

theorem C6_entry_without_meanings:
  "firstDefinition (Arr [Obj []]) = None
   \<and> map content (messages (defineHandler
          (env\<lparr> axios_get := \<lambda>n url. Returns (Arr [Obj []]) \<rparr>) ''/define cat'' st))
       = map content (messages st) @ [''Error fetching definition'']
   \<and> map content (messages (defineHandler
          (env\<lparr> axios_get := \<lambda>n url. Returns (Arr []) \<rparr>) ''/define cat'' st))
       = map content (messages st) @ [''Definition of cat: Definition not found'']"
proof -
  have word: "trim (replaceFirst ''/define cat'' ''/define'' []) = ''cat''"
    by code_simp
  have absent: "firstDefinition (Arr [Obj []]) = None"
    by code_simp
  then have thrown: "defineContent ''cat'' (Arr [Obj []]) = None"
    by (simp add: defineContent_def)
  have default: "defineContent ''cat'' (Arr []) = Some ''Definition of cat: Definition not found''"
    by code_simp
  show ?thesis
    by (simp add: absent defineHandler_def word thrown default textReply_def Let_def)
qed

section \<open>Numbers and strings, written and read\<close>











lemma takeWhile_digits:
  assumes "list_all isDigit ds" and "rest = [] \<or> \<not> isDigit (hd rest)"
  shows "takeWhile isDigit (ds @ rest) = ds"
proof -
  have "takeWhile isDigit rest = []"
    using assms(2) by (cases rest) simp_all
  with assms(1) show ?thesis
    by (simp add: takeWhile_append2 list_all_iff)
qed



























lemma quoteJSON_hd: "quoteJSON s = CHR 0x22 # tl (quoteJSON s)"
  by (simp add: quoteJSON_def)

section \<open>Values, written and read\<close>


























section \<open>Storing and loading the transcript\<close>

















text \<open>
  C1, at a stored value the code does not treat as the claim says. When the key is
  absent or holds the empty string, the transcript starts empty. When the slot holds
  a text that is not JSON, \<^verbatim>\<open>JSON.parse\<close> throws a \<^verbatim>\<open>SyntaxError\<close> and the initialiser
  passes it on: the store does not start as the empty sequence.
\<close>

theorem C1_corrupt_slot_throws:
  "initMessages env None = Parsed (Arr [])
   \<and> initMessages env (Some []) = Parsed (Arr [])
   \<and> initMessages env (Some ''{'') = SyntaxError
   \<and> initMessages env (Some ''[{\"id\":\"a\",'') = SyntaxError
   \<and> rehydrate env (Some ''{'') = None"
  by code_simp

end
